theory Spec2Isabelle
  imports Main
begin

section \<open>JavaScript values and strings\<close>

text \<open>
  The reporter of \<^verbatim>\<open>stackdriver-errors.js\<close> works on JavaScript strings, numbers and a few
  objects. Strings are \<open>string\<close>, the non-negative integers that occur (line and column
  numbers, HTTP status codes) are \<open>nat\<close>, and a property that may be missing is a
  \<open>js_value\<close> that can be \<open>JSUndefined\<close>.
\<close>

datatype js_value = JSUndefined | JSNull | JSString string | JSNumber nat

text \<open>The decimal form of a number, as \<^verbatim>\<open>String(n)\<close> gives it for a non-negative integer.\<close>

definition digit :: "nat \<Rightarrow> char" where
  "digit d = ''0123456789'' ! d"

fun string_of_nat :: "nat \<Rightarrow> string" where
  "string_of_nat n =
     (if n < 10 then [digit n] else string_of_nat (n div 10) @ [digit (n mod 10)])"

declare string_of_nat.simps [simp del]

text \<open>Reading a string of decimal digits back as a number.\<close>

definition decimal_value :: "string \<Rightarrow> nat" where
  "decimal_value s = foldl (\<lambda>a c. 10 * a + (of_char c - 48)) 0 s"

text \<open>
  \<^verbatim>\<open>Array.prototype.join\<close>: an element that is \<^verbatim>\<open>undefined\<close> or \<^verbatim>\<open>null\<close> contributes the
  empty string, every other element its string form.
\<close>

fun join_item :: "js_value \<Rightarrow> string" where
  "join_item JSUndefined = []"
| "join_item JSNull = []"
| "join_item (JSString s) = s"
| "join_item (JSNumber n) = string_of_nat n"

fun array_join :: "string \<Rightarrow> string list \<Rightarrow> string" where
  "array_join sep [] = []"
| "array_join sep [x] = x"
| "array_join sep (x # y # ys) = x @ sep @ array_join sep (y # ys)"

text \<open>
  The operator \<^verbatim>\<open>+\<close> with a string operand turns a missing operand into the text
  \<^verbatim>\<open>undefined\<close>.
\<close>

fun plus_operand :: "string option \<Rightarrow> string" where
  "plus_operand None = ''undefined''"
| "plus_operand (Some s) = s"

text \<open>
  \<^verbatim>\<open>String.prototype.split\<close> with a one-character separator, scanning the string from
  the left with the piece read so far: the result always has at least one piece, and an
  empty string gives one empty piece.
\<close>

fun split_from :: "char \<Rightarrow> string \<Rightarrow> string \<Rightarrow> string list" where
  "split_from c piece [] = [piece]"
| "split_from c piece (x # xs) =
     (if x = c then piece # split_from c [] xs else split_from c (piece @ [x]) xs)"

definition split :: "char \<Rightarrow> string \<Rightarrow> string list" where
  "split c s = split_from c [] s"

text \<open>Truthiness of an optional string: \<^verbatim>\<open>undefined\<close> and the empty string are falsy.\<close>

fun truthy :: "string option \<Rightarrow> bool" where
  "truthy None = False"
| "truthy (Some s) = (s \<noteq> [])"

text \<open>\<^verbatim>\<open>a || d\<close> on an optional string with a string default.\<close>

definition or_else :: "string option \<Rightarrow> string \<Rightarrow> string" where
  "or_else a d = (case a of None \<Rightarrow> d | Some s \<Rightarrow> if s = [] then d else s)"

section \<open>Errors and promises\<close>

text \<open>
  What a promise can be rejected with, or a function can throw: an instance of
  \<^verbatim>\<open>Error\<close> made by \<^verbatim>\<open>new Error(message)\<close>, the \<^verbatim>\<open>TypeError\<close> the engine throws on a
  property access of \<^verbatim>\<open>undefined\<close>, or an object literal with a \<^verbatim>\<open>message\<close> and a \<^verbatim>\<open>name\<close>.
\<close>

datatype rejection =
    NewError string
  | TypeError
  | ObjectLiteral (literal_message: string) (literal_name: string)

fun instanceof_Error :: "rejection \<Rightarrow> bool" where
  "instanceof_Error (NewError m) = True"
| "instanceof_Error TypeError = True"
| "instanceof_Error (ObjectLiteral m n) = False"

datatype 'a promise = Fulfilled 'a | Rejected rejection

fun fulfilled_value :: "'a promise \<Rightarrow> 'a option" where
  "fulfilled_value (Fulfilled v) = Some v"
| "fulfilled_value (Rejected r) = None"

section \<open>Data model\<close>

subsection \<open>The raw error\<close>

text \<open>
  An exception-like object: \<^verbatim>\<open>name\<close> and \<^verbatim>\<open>message\<close> give its string form, and it may
  carry \<^verbatim>\<open>file\<close>, \<^verbatim>\<open>line\<close> and \<^verbatim>\<open>column\<close> properties (\<open>JSUndefined\<close> when it does not).
\<close>

record error_object =
  err_name :: string
  err_message :: string
  err_file :: js_value
  err_line :: js_value
  err_column :: js_value

text \<open>
  The argument \<^verbatim>\<open>err\<close> of \<^verbatim>\<open>report\<close>: \<^verbatim>\<open>undefined\<close>, \<^verbatim>\<open>null\<close>, a string primitive, a
  \<^verbatim>\<open>String\<close> object or an exception-like object.
\<close>

datatype raw_error =
    ErrUndefined
  | ErrNull
  | ErrString string
  | ErrStringObject string
  | ErrObject error_object

text \<open>\<^verbatim>\<open>!err\<close>: \<^verbatim>\<open>undefined\<close>, \<^verbatim>\<open>null\<close> and the empty string primitive are falsy; objects are not.\<close>

fun falsy :: "raw_error \<Rightarrow> bool" where
  "falsy ErrUndefined = True"
| "falsy ErrNull = True"
| "falsy (ErrString s) = (s = [])"
| "falsy (ErrStringObject s) = False"
| "falsy (ErrObject e) = False"

text \<open>\<^verbatim>\<open>new Error(s)\<close> for a string \<open>s\<close>, and \<^verbatim>\<open>Error.prototype.toString\<close>.\<close>

definition new_Error :: "string \<Rightarrow> error_object" where
  "new_Error s =
     \<lparr>err_name = ''Error'', err_message = s,
      err_file = JSUndefined, err_line = JSUndefined, err_column = JSUndefined\<rparr>"

definition toString :: "error_object \<Rightarrow> string" where
  "toString e =
     (if err_name e = [] then err_message e
      else if err_message e = [] then err_name e
      else err_name e @ '': '' @ err_message e)"

subsection \<open>Stack frames and the report location\<close>

text \<open>
  Modelled from the spec: the stack frames of the library \<^verbatim>\<open>stacktrace-js\<close>, which the
  reporter requires and which is not in the repository. The spec's ResolvedFrame has a
  function name that may be missing, a file name, a line number and a column number; the
  fields are named after the four getters the reporter calls.
  \<^verbatim>\<open>StackTrace.fromError(err)\<close> itself is a parameter of the model: it fails with a reason
  or gives a list of frames.
\<close>

record stack_frame =
  getFunctionName :: "string option"
  getFileName :: string
  getLineNumber :: nat
  getColumnNumber :: nat

datatype reason = ReasonValue js_value | ReasonError error_object

fun reason_item :: "reason \<Rightarrow> string" where
  "reason_item (ReasonValue v) = join_item v"
| "reason_item (ReasonError e) = toString e"

text \<open>The second component of what \<^verbatim>\<open>resolveError\<close> gives: \<^verbatim>\<open>{}\<close> or a location.\<close>

datatype report_location =
    EmptyObject
  | Location (filePath: string) (lineNumber: nat) (functionName: string)

subsection \<open>Context, payload and the object store\<close>

record http_request =
  userAgent :: string
  url :: string

record context_object =
  user :: js_value
  httpRequest :: "http_request option"
  reportLocation :: "report_location option"

record service_context =
  service :: string
  version :: "string option"

text \<open>
  The context is one JavaScript object that the reporter and every payload refer to. It
  lives in a store, and \<^verbatim>\<open>this.context\<close> and \<^verbatim>\<open>payload.context\<close> are references into it.
\<close>

type_synonym ref = nat

record payload =
  payload_serviceContext :: service_context
  payload_context :: ref
  payload_message :: "string option"

text \<open>What the promise returned by \<^verbatim>\<open>report\<close> can be fulfilled with.\<close>

datatype report_value =
    NullValue
  | MessageObject "string option"
  | CustomValue string

text \<open>
  What leaves the reporter is recorded in a trace: a call of \<^verbatim>\<open>StackTrace.fromError\<close>, a
  call of the custom reporting function, or an HTTP POST. A delivery is recorded with the
  payload and with the content the context object has at that moment.
\<close>

datatype event =
    FromError error_object
  | CustomCall payload context_object
  | HttpPost string payload context_object

fun is_delivery :: "event \<Rightarrow> bool" where
  "is_delivery (FromError e) = False"
| "is_delivery (CustomCall p c) = True"
| "is_delivery (HttpPost target p c) = True"

fun delivered_context :: "event \<Rightarrow> context_object option" where
  "delivered_context (FromError e) = None"
| "delivered_context (CustomCall p c) = Some c"
| "delivered_context (HttpPost target p c) = Some c"

fun delivered_payload :: "event \<Rightarrow> payload option" where
  "delivered_payload (FromError e) = None"
| "delivered_payload (CustomCall p c) = Some p"
| "delivered_payload (HttpPost target p c) = Some p"

text \<open>
  The global handler slots \<^verbatim>\<open>window.onerror\<close> and \<^verbatim>\<open>window.onunhandledrejection\<close> hold
  nothing, a handler of the page, or the reporter's wrapper around the previous handler.
\<close>

datatype handler = Noop | PageHandler nat | ReportingHandler handler

record world =
  heap :: "ref \<Rightarrow> context_object"
  next_ref :: ref
  trace :: "event list"
  onerror :: "handler option"
  onunhandledrejection :: "handler option"

text \<open>
  The ambient environment of one call of \<^verbatim>\<open>report\<close>: the browser's user agent and URL,
  the stack resolution, and the status the HTTP request ends with at \<^verbatim>\<open>readyState\<close> 4
  (0 when the network fails).
\<close>

record env =
  navigator_userAgent :: string
  location_href :: string
  StackTrace_fromError :: "error_object \<Rightarrow> reason + stack_frame list"
  xhr_status :: nat

subsection \<open>Configuration and reporter\<close>

text \<open>
  The custom reporting function gets the payload, can read the context object the
  payload refers to, and returns a promise. It is taken not to write to the context.
\<close>

type_synonym reporting_function = "payload \<Rightarrow> (ref \<Rightarrow> context_object) \<Rightarrow> report_value promise"

record config =
  config_key :: "string option"
  config_projectId :: "string option"
  config_targetUrl :: "string option"
  config_customReportingFunction :: "reporting_function option"
  config_customMessageTranslator :: "(string \<Rightarrow> string) option"
  config_context :: "ref option"
  config_basePath :: "string option"
  config_service :: "string option"
  config_version :: "string option"
  config_reportUncaughtExceptions :: "bool option"
  config_reportUnhandledPromiseRejections :: "bool option"
  config_disabled :: "bool option"

record reporter =
  customReportingFunction :: "reporting_function option"
  customMessageTranslator :: "(string \<Rightarrow> string) option"
  apiKey :: "string option"
  projectId :: "string option"
  targetUrl :: "string option"
  context_ref :: ref
  basePath :: "string option"
  serviceContext :: service_context
  reportUncaughtExceptions :: bool
  reportUnhandledPromiseRejections :: bool
  disabled :: bool

record options =
  skipLocalFrames :: "int option"

section \<open>Operations\<close>

subsection \<open>\<^verbatim>\<open>start\<close> and \<^verbatim>\<open>registerHandlers\<close>\<close>

text \<open>
  \<^verbatim>\<open>registerHandlers\<close> puts the reporter's wrapper around the previous handler
  (\<^verbatim>\<open>window.onerror || noop\<close>) into each slot that is switched on. Only the installation
  is modelled, not the later calls of the handlers.
\<close>

definition registerHandlers :: "reporter \<Rightarrow> world \<Rightarrow> world" where
  "registerHandlers reporter w =
     (let w1 =
        (if reportUncaughtExceptions reporter
         then w\<lparr>onerror :=
                  Some (ReportingHandler (case onerror w of None \<Rightarrow> Noop | Some h \<Rightarrow> h))\<rparr>
         else w)
      in
        (if reportUnhandledPromiseRejections reporter
         then w1\<lparr>onunhandledrejection :=
                   Some (ReportingHandler
                           (case onunhandledrejection w1 of None \<Rightarrow> Noop | Some h \<Rightarrow> h))\<rparr>
         else w1))"

definition empty_object :: context_object where
  "empty_object = \<lparr>user = JSUndefined, httpRequest = None, reportLocation = None\<rparr>"

text \<open>
  \<^verbatim>\<open>start\<close> throws (\<open>Inl\<close>) or gives the initialised reporter and the new world.
  \<^verbatim>\<open>config.context || {}\<close> takes the caller's object, or allocates an empty one.
\<close>

definition start :: "config \<Rightarrow> world \<Rightarrow> rejection + reporter \<times> world" where
  "start config w =
     (if \<not> truthy (config_key config) \<and> \<not> truthy (config_targetUrl config)
           \<and> config_customReportingFunction config = None
      then Inl (NewError
        ''Cannot initialize: No API key, target url or custom reporting function provided.'')
      else if \<not> truthy (config_projectId config) \<and> \<not> truthy (config_targetUrl config)
           \<and> config_customReportingFunction config = None
      then Inl (NewError
        ''Cannot initialize: No project ID, target url or custom reporting function provided.'')
      else
        (let (c, w1) =
               (case config_context config of
                  Some r \<Rightarrow> (r, w)
                | None \<Rightarrow>
                    (next_ref w,
                     w\<lparr>heap := (heap w)(next_ref w := empty_object),
                       next_ref := Suc (next_ref w)\<rparr>));
             this =
               \<lparr>customReportingFunction = config_customReportingFunction config,
                customMessageTranslator = config_customMessageTranslator config,
                apiKey = config_key config,
                projectId = config_projectId config,
                targetUrl = config_targetUrl config,
                context_ref = c,
                basePath = config_basePath config,
                serviceContext =
                  \<lparr>service = or_else (config_service config) ''web'',
                   version =
                     (if truthy (config_version config) then config_version config else None)\<rparr>,
                reportUncaughtExceptions =
                  (config_reportUncaughtExceptions config \<noteq> Some False),
                reportUnhandledPromiseRejections =
                  (config_reportUnhandledPromiseRejections config \<noteq> Some False),
                disabled = (config_disabled config = Some True)\<rparr>
         in Inr (this, registerHandlers this w1)))"

subsection \<open>\<^verbatim>\<open>resolveError\<close>\<close>

text \<open>One line of the reconstructed stack, built by \<^verbatim>\<open>[...].join('')\<close>.\<close>

definition frame_line :: "stack_frame \<Rightarrow> string" where
  "frame_line f =
     array_join []
       [''    at '',
        or_else (getFunctionName f) ''<anonymous>'', '' ('',
        getFileName f, '':'',
        string_of_nat (getLineNumber f), '':'',
        string_of_nat (getColumnNumber f), '')'']"

text \<open>The loop \<^verbatim>\<open>for (let s = firstFrameIndex; s < stack.length; s++) lines.push(...)\<close>.\<close>

function push_lines :: "stack_frame list \<Rightarrow> nat \<Rightarrow> string list \<Rightarrow> string list" where
  "push_lines stack s lines =
     (if s < length stack
      then push_lines stack (Suc s) (lines @ [frame_line (stack ! s)])
      else lines)"
  by pat_completeness auto
termination
  by (relation "measure (\<lambda>(stack, s, lines). length stack - s)") auto

declare push_lines.simps [simp del]

text \<open>
  The loop \<^verbatim>\<open>for (let e = 3; e < filePathList.length; e++)
  fileName.push(filePathList[e].split("?")[0])\<close>.
\<close>

function push_segments :: "string list \<Rightarrow> nat \<Rightarrow> string list \<Rightarrow> string list" where
  "push_segments filePathList e fileName =
     (if e < length filePathList
      then push_segments filePathList (Suc e)
             (fileName @ [hd (split CHR ''?'' (filePathList ! e))])
      else fileName)"
  by pat_completeness auto
termination
  by (relation "measure (\<lambda>(filePathList, e, fileName). length filePathList - e)") auto

declare push_segments.simps [simp del]

text \<open>
  The callback for a resolved stack. Reading \<^verbatim>\<open>stack[s]\<close> outside the array gives
  \<^verbatim>\<open>undefined\<close>, and calling a getter on it throws a \<^verbatim>\<open>TypeError\<close>, which rejects the
  promise: with a negative index in the first round of the loop, with an index past the
  end at \<^verbatim>\<open>stack[firstFrameIndex].getFileName()\<close>. The lines are joined by a backslash
  followed by the letter n.
\<close>

definition stack_resolved ::
  "error_object \<Rightarrow> int \<Rightarrow> string option \<Rightarrow> stack_frame list \<Rightarrow> (string \<times> report_location) promise"
where
  "stack_resolved err firstFrameIndex fileBasePath stack =
     (if firstFrameIndex < 0 then Rejected TypeError
      else if int (length stack) \<le> firstFrameIndex then Rejected TypeError
      else
        (let i = nat firstFrameIndex;
             lines = push_lines stack i [toString err];
             filePathList = split CHR ''/'' (getFileName (stack ! i));
             fileName = push_segments filePathList 3 [];
             fileName = plus_operand fileBasePath @ ''/'' @ array_join ''/'' fileName
         in Fulfilled
              (array_join [CHR 0x5C, CHR ''n''] lines,
               Location fileName (getLineNumber (stack ! i))
                 (or_else (getFunctionName (stack ! i)) ''<anonymous>''))))"

text \<open>The callback for a failed resolution.\<close>

definition stack_failed :: "error_object \<Rightarrow> reason \<Rightarrow> (string \<times> report_location) promise" where
  "stack_failed err reason =
     Fulfilled
       (array_join []
          [''Error extracting stack trace: '', reason_item reason, [CHR 0x0A],
           toString err, [CHR 0x0A],
           ''    ('', join_item (err_file err), '':'', join_item (err_line err), '':'',
           join_item (err_column err), '')''],
        EmptyObject)"

definition resolveError ::
  "(error_object \<Rightarrow> reason + stack_frame list) \<Rightarrow> error_object \<Rightarrow> int \<Rightarrow> string option
     \<Rightarrow> (string \<times> report_location) promise"
where
  "resolveError fromError err firstFrameIndex fileBasePath =
     (case fromError err of
        Inr stack \<Rightarrow> stack_resolved err firstFrameIndex fileBasePath stack
      | Inl reason \<Rightarrow> stack_failed err reason)"

subsection \<open>\<^verbatim>\<open>sendErrorPayload\<close>\<close>

text \<open>
  The POST is recorded with the content of the payload's context at that time (the body
  is \<^verbatim>\<open>JSON.stringify(payload)\<close>); the promise is settled from the status at
  \<^verbatim>\<open>readyState\<close> 4.
\<close>

definition sendErrorPayload ::
  "env \<Rightarrow> string \<Rightarrow> payload \<Rightarrow> world \<Rightarrow> report_value promise \<times> world"
where
  "sendErrorPayload env target payload w =
     (let code = xhr_status env;
          w1 = w\<lparr>trace := trace w @ [HttpPost target payload (heap w (payload_context payload))]\<rparr>
      in
        (if 200 \<le> code \<and> code < 300
         then Fulfilled (MessageObject (payload_message payload))
         else if code = 429
         then Rejected (ObjectLiteral ''quota or rate limiting error on stackdriver report''
                          ''Http429FakeError'')
         else Rejected (NewError
                ((if code \<noteq> 0 then string_of_nat code @ '' http response''
                  else ''network error'') @ '' on stackdriver report'')),
         w1))"

subsection \<open>\<^verbatim>\<open>report\<close>\<close>

definition baseAPIUrl :: string where
  "baseAPIUrl = ''https://clouderrorreporting.googleapis.com/v1beta1/projects/''"

text \<open>\<^verbatim>\<open>options.skipLocalFrames || 1\<close>: a missing value and 0 are falsy.\<close>

definition skipLocalFrames_or_1 :: "options \<Rightarrow> int" where
  "skipLocalFrames_or_1 opts =
     (case skipLocalFrames opts of None \<Rightarrow> 1 | Some n \<Rightarrow> if n = 0 then 1 else n)"

text \<open>
  What \<^verbatim>\<open>report\<close> has computed when it calls \<^verbatim>\<open>resolveError\<close>, and what the callback
  passed to \<^verbatim>\<open>then\<close> closes over.
\<close>

record pending_report =
  pending_payload :: payload
  pending_err :: error_object
  pending_firstFrameIndex :: int
  pending_reportUrl :: string
  pending_customFunc :: "reporting_function option"
  pending_customMessageTranslator :: "(string \<Rightarrow> string) option"

text \<open>
  The synchronous part of \<^verbatim>\<open>report\<close>, up to the call of \<^verbatim>\<open>resolveError\<close>: it either
  returns a settled promise (\<open>Inl\<close>) or goes on to resolution (\<open>Inr\<close>). The write to
  \<^verbatim>\<open>payload.context.httpRequest\<close> is a write to the shared context object in the store.
  A string (\<^verbatim>\<open>typeof err == 'string' || err instanceof String\<close>) is replaced by
  \<^verbatim>\<open>new Error(err)\<close> and sets the index; any other value is kept, with the index 0.
  \<^verbatim>\<open>undefined\<close> and \<^verbatim>\<open>null\<close> are falsy and have left before, so that the last case of the
  distinction is never reached.
\<close>

definition report_sync ::
  "reporter \<Rightarrow> env \<Rightarrow> raw_error \<Rightarrow> options option \<Rightarrow> world
     \<Rightarrow> (report_value promise + pending_report) \<times> world"
where
  "report_sync this env err opts w =
     (if disabled this then (Inl (Fulfilled NullValue), w)
      else if falsy err then (Inl (Rejected (NewError ''no error to report'')), w)
      else
        (let opts = (case opts of None \<Rightarrow> \<lparr>skipLocalFrames = None\<rparr> | Some given \<Rightarrow> given);
             payload =
               \<lparr>payload_serviceContext = serviceContext this,
                payload_context = context_ref this,
                payload_message = None\<rparr>;
             w1 = w\<lparr>heap := (heap w)
                     (payload_context payload :=
                        (heap w (payload_context payload))
                          \<lparr>httpRequest :=
                             Some \<lparr>userAgent = navigator_userAgent env,
                                   url = location_href env\<rparr>\<rparr>)\<rparr>;
             reportUrl =
               or_else (targetUrl this)
                 (baseAPIUrl @ plus_operand (projectId this) @ ''/events:report?key=''
                    @ plus_operand (apiKey this));
             pending = (\<lambda>e firstFrameIndex.
               \<lparr>pending_payload = payload, pending_err = e,
                pending_firstFrameIndex = firstFrameIndex, pending_reportUrl = reportUrl,
                pending_customFunc = customReportingFunction this,
                pending_customMessageTranslator = customMessageTranslator this\<rparr>)
         in
           (case err of
              ErrString s \<Rightarrow> (Inr (pending (new_Error s) (skipLocalFrames_or_1 opts)), w1)
            | ErrStringObject s \<Rightarrow> (Inr (pending (new_Error s) (skipLocalFrames_or_1 opts)), w1)
            | ErrObject e \<Rightarrow> (Inr (pending e 0), w1)
            | _ \<Rightarrow> (Inl (Rejected (NewError ''no error to report'')), w))))"

text \<open>The callback passed to \<^verbatim>\<open>then\<close>, called with \<^verbatim>\<open>[message, reportLocation]\<close>.\<close>

definition report_then ::
  "env \<Rightarrow> pending_report \<Rightarrow> string \<times> report_location \<Rightarrow> world \<Rightarrow> report_value promise \<times> world"
where
  "report_then env pending resolved w =
     (let (message, location) = resolved;
          payload = (pending_payload pending)
            \<lparr>payload_message :=
               Some (case pending_customMessageTranslator pending of
                       Some translate \<Rightarrow> translate message
                     | None \<Rightarrow> message)\<rparr>
      in
        (case pending_customFunc pending of
           Some customFunc \<Rightarrow>
             (customFunc payload (heap w),
              w\<lparr>trace := trace w @ [CustomCall payload (heap w (payload_context payload))]\<rparr>)
         | None \<Rightarrow>
             (let w1 = w\<lparr>heap := (heap w)
                          (payload_context payload :=
                             (heap w (payload_context payload))
                               \<lparr>reportLocation := Some location\<rparr>)\<rparr>
              in sendErrorPayload env (pending_reportUrl pending) payload w1)))"

definition report ::
  "reporter \<Rightarrow> env \<Rightarrow> raw_error \<Rightarrow> options option \<Rightarrow> world \<Rightarrow> report_value promise \<times> world"
where
  "report this env err opts w =
     (case report_sync this env err opts w of
        (Inl settled, w1) \<Rightarrow> (settled, w1)
      | (Inr pending, w1) \<Rightarrow>
          (let w2 = w1\<lparr>trace := trace w1 @ [FromError (pending_err pending)]\<rparr>
           in
             (case resolveError (StackTrace_fromError env) (pending_err pending)
                     (pending_firstFrameIndex pending) (basePath this) of
                Rejected r \<Rightarrow> (Rejected r, w2)
              | Fulfilled resolved \<Rightarrow> report_then env pending resolved w2)))"

subsection \<open>\<^verbatim>\<open>setUser\<close>\<close>

definition setUser :: "reporter \<Rightarrow> js_value \<Rightarrow> world \<Rightarrow> world" where
  "setUser this u w =
     w\<lparr>heap := (heap w)(context_ref this := (heap w (context_ref this))\<lparr>user := u\<rparr>)\<rparr>"

subsection \<open>Calls and callbacks in the order they run\<close>

text \<open>
  \<^verbatim>\<open>report\<close> returns when it has called \<^verbatim>\<open>resolveError\<close>; the callback it passed to
  \<^verbatim>\<open>then\<close> runs later, when the stack resolution has settled, and other calls can run in
  between. \<open>report\<close> above is a call together with its callback when nothing runs in
  between. Here a call of \<^verbatim>\<open>report\<close> that goes on to resolution is suspended with the
  environment it was made in; \<open>Resume n\<close> lets the resolution of the \<open>n\<close>-th suspended call
  settle and runs its callbacks, so that the payload is handed over, and its context
  read, at that moment. The state is the world and the suspended calls.
\<close>

datatype action =
    CallReport env raw_error "options option"
  | CallSetUser js_value
  | Resume nat

fun is_setUser :: "action \<Rightarrow> bool" where
  "is_setUser (CallReport env err opts) = False"
| "is_setUser (CallSetUser u) = True"
| "is_setUser (Resume n) = False"

fun step ::
  "reporter \<Rightarrow> action \<Rightarrow> world \<times> (env \<times> pending_report) list
     \<Rightarrow> world \<times> (env \<times> pending_report) list"
where
  "step this (CallReport env err opts) (w, suspended) =
     (case report_sync this env err opts w of
        (Inl settled, w1) \<Rightarrow> (w1, suspended)
      | (Inr pending, w1) \<Rightarrow>
          (w1\<lparr>trace := trace w1 @ [FromError (pending_err pending)]\<rparr>,
           suspended @ [(env, pending)]))"
| "step this (CallSetUser u) (w, suspended) = (setUser this u w, suspended)"
| "step this (Resume n) (w, suspended) =
     (if n < length suspended
      then
        (case suspended ! n of
           (env, pending) \<Rightarrow>
             (case resolveError (StackTrace_fromError env) (pending_err pending)
                     (pending_firstFrameIndex pending) (basePath this) of
                Rejected r \<Rightarrow> (w, take n suspended @ drop (Suc n) suspended)
              | Fulfilled resolved \<Rightarrow>
                  (snd (report_then env pending resolved w),
                   take n suspended @ drop (Suc n) suspended)))
      else (w, suspended))"

fun run ::
  "reporter \<Rightarrow> action list \<Rightarrow> world \<times> (env \<times> pending_report) list
     \<Rightarrow> world \<times> (env \<times> pending_report) list"
where
  "run this [] state = state"
| "run this (a # actions) state = run this actions (step this a state)"

text \<open>Every suspended call holds a payload that refers to the reporter's context object.\<close>

definition refers_to_context :: "reporter \<Rightarrow> (env \<times> pending_report) list \<Rightarrow> bool" where
  "refers_to_context this suspended =
     (\<forall>x \<in> set suspended. payload_context (pending_payload (snd x)) = context_ref this)"

section \<open>Concrete values\<close>

text \<open>A small world, reporters and inputs on which the properties below are evaluated.\<close>

definition example_world :: world where
  "example_world =
     \<lparr>heap = (\<lambda>r. empty_object), next_ref = 1, trace = [],
      onerror = None, onunhandledrejection = None\<rparr>"

definition example_frames :: "stack_frame list" where
  "example_frames =
     [\<lparr>getFunctionName = Some ''a'', getFileName = ''https://x/y/z/app.js?v=1'',
       getLineNumber = 10, getColumnNumber = 2\<rparr>,
      \<lparr>getFunctionName = None, getFileName = ''https://x/lib/b.js'',
       getLineNumber = 20, getColumnNumber = 3\<rparr>]"

definition example_env :: env where
  "example_env =
     \<lparr>navigator_userAgent = ''UA'', location_href = ''https://x/page'',
      StackTrace_fromError = (\<lambda>e. Inr example_frames), xhr_status = 200\<rparr>"

definition example_failing_env :: env where
  "example_failing_env =
     example_env\<lparr>StackTrace_fromError := (\<lambda>e. Inl (ReasonValue (JSString ''no stack'')))\<rparr>"

definition example_reporter :: reporter where
  "example_reporter =
     \<lparr>customReportingFunction = None, customMessageTranslator = None,
      apiKey = Some ''k'', projectId = Some ''p'', targetUrl = None,
      context_ref = 0, basePath = Some ''base'',
      serviceContext = \<lparr>service = ''web'', version = None\<rparr>,
      reportUncaughtExceptions = True, reportUnhandledPromiseRejections = True,
      disabled = False\<rparr>"

definition example_custom_reporter :: reporter where
  "example_custom_reporter =
     example_reporter\<lparr>customReportingFunction := Some (\<lambda>p h. Fulfilled (CustomValue ''ok''))\<rparr>"

definition example_payload :: payload where
  "example_payload =
     \<lparr>payload_serviceContext = \<lparr>service = ''web'', version = None\<rparr>,
      payload_context = 0, payload_message = Some ''Error: boom''\<rparr>"

definition example_error :: error_object where
  "example_error =
     \<lparr>err_name = ''RangeError'', err_message = ''bad'',
      err_file = JSString ''a.js'', err_line = JSNumber 7, err_column = JSUndefined\<rparr>"

definition example_short_env :: env where
  "example_short_env =
     example_env\<lparr>StackTrace_fromError := (\<lambda>e. Inr [hd example_frames])\<rparr>"

definition example_translating_reporter :: reporter where
  "example_translating_reporter =
     example_reporter\<lparr>customMessageTranslator := Some (\<lambda>m. ''translated'')\<rparr>"

definition example_config :: config where
  "example_config =
     \<lparr>config_key = Some ''k'', config_projectId = Some ''p'', config_targetUrl = None,
      config_customReportingFunction = None, config_customMessageTranslator = None,
      config_context = None, config_basePath = None, config_service = None,
      config_version = None, config_reportUncaughtExceptions = None,
      config_reportUnhandledPromiseRejections = None, config_disabled = None\<rparr>"

section \<open>Properties\<close>

subsection \<open>Iteration and the string functions\<close>

text \<open>\<open>string_of_nat\<close> writes a number in decimal: reading the digits back gives the number.\<close>

lemma digit_value: "d < 10 \<Longrightarrow> of_char (digit d) - 48 = (d::nat)"
proof -
  assume "d < 10"
  then have "d \<in> {0, 1, 2, 3, 4, 5, 6, 7, 8, 9}"
    by auto
  then show ?thesis
    by (auto simp: digit_def)
qed

lemma decimal_value_string_of_nat: "decimal_value (string_of_nat n) = n"
proof (induction n rule: string_of_nat.induct)
  case (1 n)
  show ?case
  proof (cases "n < 10")
    case True
    then show ?thesis
      by (subst string_of_nat.simps) (simp add: decimal_value_def digit_value)
  next
    case False
    with "1.IH" have "decimal_value (string_of_nat (n div 10)) = n div 10"
      by simp
    with False show ?thesis
      by (subst string_of_nat.simps) (simp add: decimal_value_def digit_value)
  qed
qed

text \<open>Each \<^verbatim>\<open>for\<close> statement of \<^verbatim>\<open>resolveError\<close> appends one element per remaining index.\<close>

lemma push_lines_eq: "push_lines stack s lines = lines @ map frame_line (drop s stack)"
proof (induction stack s lines rule: push_lines.induct)
  case (1 stack s lines)
  show ?case
  proof (cases "s < length stack")
    case True
    then have "drop s stack = stack ! s # drop (Suc s) stack"
      by (simp add: Cons_nth_drop_Suc)
    with True "1.IH" show ?thesis
      by (subst push_lines.simps) simp
  next
    case False
    then show ?thesis
      by (subst push_lines.simps) simp
  qed
qed

lemma push_segments_eq:
  "push_segments filePathList e fileName
     = fileName @ map (\<lambda>seg. hd (split CHR ''?'' seg)) (drop e filePathList)"
proof (induction filePathList e fileName rule: push_segments.induct)
  case (1 filePathList e fileName)
  show ?case
  proof (cases "e < length filePathList")
    case True
    then have "drop e filePathList = filePathList ! e # drop (Suc e) filePathList"
      by (simp add: Cons_nth_drop_Suc)
    with True "1.IH" show ?thesis
      by (subst push_segments.simps) simp
  next
    case False
    then show ?thesis
      by (subst push_segments.simps) simp
  qed
qed

text \<open>
  \<open>split\<close> cuts a string at every occurrence of the separator: no piece contains it,
  joining the pieces with it gives the string back, and the first piece is the text
  before the first separator.
\<close>

lemma split_from_not_Nil: "split_from c piece s \<noteq> []"
  by (induction s arbitrary: piece) auto

lemma hd_split_from: "hd (split_from c piece s) = piece @ takeWhile (\<lambda>x. x \<noteq> c) s"
  by (induction s arbitrary: piece) auto

lemma hd_split: "hd (split c s) = takeWhile (\<lambda>x. x \<noteq> c) s"
  by (simp add: split_def hd_split_from)

lemma array_join_Cons: "ys \<noteq> [] \<Longrightarrow> array_join sep (x # ys) = x @ sep @ array_join sep ys"
  by (cases ys) auto

lemma array_join_split_from: "array_join [c] (split_from c piece s) = piece @ s"
  by (induction s arbitrary: piece) (auto simp: array_join_Cons split_from_not_Nil)

lemma array_join_split: "array_join [c] (split c s) = s"
  by (simp add: split_def array_join_split_from)

lemma split_from_pieces:
  "p \<in> set (split_from c piece s) \<Longrightarrow> c \<notin> set piece \<Longrightarrow> c \<notin> set p"
proof (induction s arbitrary: piece)
  case Nil
  then show ?case by simp
next
  case (Cons x xs)
  show ?case
  proof (cases "x = c")
    case True
    with Cons.prems have "p = piece \<or> p \<in> set (split_from c [] xs)"
      by simp
    then show ?thesis
      using Cons.IH [of "[]"] Cons.prems(2) by auto
  next
    case False
    with Cons.prems have "p \<in> set (split_from c (piece @ [x]) xs)"
      by simp
    moreover have "c \<notin> set (piece @ [x])"
      using False Cons.prems(2) by simp
    ultimately show ?thesis
      by (rule Cons.IH)
  qed
qed

lemma split_pieces: "p \<in> set (split c s) \<Longrightarrow> c \<notin> set p"
  using split_from_pieces [of p c "[]" s] by (simp add: split_def)

subsection \<open>The two phases of \<^verbatim>\<open>report\<close>\<close>

text \<open>
  \<^verbatim>\<open>report\<close> goes on to resolution exactly when the reporter is enabled and \<open>err\<close> is
  truthy; the lemmas below say what it has prepared by then, what it does next, and what
  the callback adds to the trace and writes to the store.
\<close>

lemma report_sync_Inr_iff:
  "(\<exists>pending w1. report_sync this env e opts w = (Inr pending, w1))
     \<longleftrightarrow> \<not> disabled this \<and> \<not> falsy e"
  by (cases e) (auto simp: report_sync_def Let_def)

lemma report_after_sync:
  "report_sync this env e opts w = (Inr pending, w1) \<Longrightarrow>
   report this env e opts w =
     (case resolveError (StackTrace_fromError env) (pending_err pending)
             (pending_firstFrameIndex pending) (basePath this) of
        Rejected r \<Rightarrow> (Rejected r, w1\<lparr>trace := trace w1 @ [FromError (pending_err pending)]\<rparr>)
      | Fulfilled resolved \<Rightarrow>
          report_then env pending resolved
            (w1\<lparr>trace := trace w1 @ [FromError (pending_err pending)]\<rparr>))"
  by (simp add: report_def Let_def)

lemma report_sync_pending:
  "report_sync this env e opts w = (Inr pending, w1) \<Longrightarrow>
     \<not> disabled this \<and> \<not> falsy e
     \<and> pending_payload pending =
         \<lparr>payload_serviceContext = serviceContext this, payload_context = context_ref this,
          payload_message = None\<rparr>
     \<and> pending_customFunc pending = customReportingFunction this
     \<and> pending_customMessageTranslator pending = customMessageTranslator this
     \<and> pending_reportUrl pending =
         or_else (targetUrl this)
           (baseAPIUrl @ plus_operand (projectId this) @ ''/events:report?key=''
              @ plus_operand (apiKey this))
     \<and> w1 = w\<lparr>heap := (heap w)
                (context_ref this :=
                   (heap w (context_ref this))
                     \<lparr>httpRequest :=
                        Some \<lparr>userAgent = navigator_userAgent env,
                              url = location_href env\<rparr>\<rparr>)\<rparr>"
  by (cases e) (auto simp: report_sync_def Let_def split: if_splits)

lemma report_sync_settled:
  "report_sync this env e opts w = (Inl settled, w1) \<Longrightarrow> w1 = w"
  by (cases e) (auto simp: report_sync_def Let_def split: if_splits)

lemma report_then_trace:
  "trace (snd (report_then env pending (m, location) w)) =
     trace w @
       [case pending_customFunc pending of
          Some customFunc \<Rightarrow>
            CustomCall
              ((pending_payload pending)
                 \<lparr>payload_message :=
                    Some (case pending_customMessageTranslator pending of
                            Some translate \<Rightarrow> translate m | None \<Rightarrow> m)\<rparr>)
              (heap w (payload_context (pending_payload pending)))
        | None \<Rightarrow>
            HttpPost (pending_reportUrl pending)
              ((pending_payload pending)
                 \<lparr>payload_message :=
                    Some (case pending_customMessageTranslator pending of
                            Some translate \<Rightarrow> translate m | None \<Rightarrow> m)\<rparr>)
              ((heap w (payload_context (pending_payload pending)))
                 \<lparr>reportLocation := Some location\<rparr>)]"
  by (simp add: report_then_def sendErrorPayload_def Let_def split: option.splits)

lemma report_then_heap:
  "heap (snd (report_then env pending (m, location) w)) =
     (case pending_customFunc pending of
        Some customFunc \<Rightarrow> heap w
      | None \<Rightarrow>
          (heap w)
            (payload_context (pending_payload pending) :=
               (heap w (payload_context (pending_payload pending)))
                 \<lparr>reportLocation := Some location\<rparr>))"
  by (simp add: report_then_def sendErrorPayload_def Let_def split: option.splits)

text \<open>What one call of \<^verbatim>\<open>report\<close> can append to the trace and write to the store.\<close>

lemma report_trace_cases:
  "trace (snd (report this env e opts w)) = trace w
   \<or> (\<exists>x. trace (snd (report this env e opts w)) = trace w @ [FromError x])
   \<or> (\<exists>x p. trace (snd (report this env e opts w))
         = trace w @ [FromError x, CustomCall p (heap w (context_ref this)
              \<lparr>httpRequest := Some \<lparr>userAgent = navigator_userAgent env,
                                     url = location_href env\<rparr>\<rparr>)])
   \<or> (\<exists>x target p location. trace (snd (report this env e opts w))
         = trace w @ [FromError x, HttpPost target p (heap w (context_ref this)
              \<lparr>httpRequest := Some \<lparr>userAgent = navigator_userAgent env,
                                     url = location_href env\<rparr>,
               reportLocation := Some location\<rparr>)])"
proof (cases "report_sync this env e opts w")
  case (Pair a w1)
  show ?thesis
  proof (cases a)
    case (Inl settled)
    with Pair have "w1 = w" by (simp add: report_sync_settled)
    with Pair Inl show ?thesis by (simp add: report_def)
  next
    case (Inr pending)
    note sync = Pair [unfolded Inr]
    note facts = report_sync_pending [OF sync]
    show ?thesis
    proof (cases "resolveError (StackTrace_fromError env) (pending_err pending)
             (pending_firstFrameIndex pending) (basePath this)")
      case (Rejected r)
      with sync facts show ?thesis
        by (simp add: report_after_sync)
    next
      case (Fulfilled resolved)
      obtain m location where r: "resolved = (m, location)" by (cases resolved)
      show ?thesis
      proof (cases "customReportingFunction this")
        case None
        with sync facts Fulfilled r show ?thesis
          by (auto simp add: report_after_sync report_then_trace)
      next
        case (Some f)
        with sync facts Fulfilled r show ?thesis
          by (auto simp add: report_after_sync report_then_trace)
      qed
    qed
  qed
qed

lemma report_heap_cases:
  "heap (snd (report this env e opts w)) = heap w
   \<or> heap (snd (report this env e opts w)) = (heap w)(context_ref this := heap w (context_ref this)
              \<lparr>httpRequest := Some \<lparr>userAgent = navigator_userAgent env,
                                     url = location_href env\<rparr>\<rparr>)
   \<or> (\<exists>location. heap (snd (report this env e opts w)) = (heap w)(context_ref this := heap w (context_ref this)
              \<lparr>httpRequest := Some \<lparr>userAgent = navigator_userAgent env,
                                     url = location_href env\<rparr>,
               reportLocation := Some location\<rparr>))"
proof (cases "report_sync this env e opts w")
  case (Pair a w1)
  show ?thesis
  proof (cases a)
    case (Inl settled)
    with Pair have "w1 = w" by (simp add: report_sync_settled)
    with Pair Inl show ?thesis by (simp add: report_def)
  next
    case (Inr pending)
    note sync = Pair [unfolded Inr]
    note facts = report_sync_pending [OF sync]
    show ?thesis
    proof (cases "resolveError (StackTrace_fromError env) (pending_err pending)
             (pending_firstFrameIndex pending) (basePath this)")
      case (Rejected r)
      with sync facts show ?thesis
        by (simp add: report_after_sync)
    next
      case (Fulfilled resolved)
      obtain m location where r: "resolved = (m, location)" by (cases resolved)
      show ?thesis
      proof (cases "customReportingFunction this")
        case None
        with sync facts Fulfilled r show ?thesis
          by (auto simp add: report_after_sync report_then_heap)
      next
        case (Some f)
        with sync facts Fulfilled r show ?thesis
          by (auto simp add: report_after_sync report_then_heap)
      qed
    qed
  qed
qed

lemma report_keeps_user:
  "user (heap (snd (report this env e opts w)) r) = user (heap w r)"
  using report_heap_cases [of this env e opts w] by auto

lemma report_delivers_user:
  "\<exists>evs. trace (snd (report this env e opts w)) = trace w @ evs
     \<and> (\<forall>ev \<in> set evs. is_delivery ev \<longrightarrow>
           map_option user (delivered_context ev) = Some (user (heap w (context_ref this))))"
  using report_trace_cases [of this env e opts w] by auto

lemma report_trace_length:
  "length (filter is_delivery (drop (length (trace w)) (trace (snd (report this env e opts w)))))
     \<le> 1"
  using report_trace_cases [of this env e opts w] by auto

subsection \<open>The message of a resolved stack\<close>

lemma frame_line_eq:
  "frame_line f =
     ''    at ''
       @ (case getFunctionName f of None \<Rightarrow> ''<anonymous>''
          | Some n \<Rightarrow> if n = [] then ''<anonymous>'' else n)
       @ '' ('' @ getFileName f @ '':'' @ string_of_nat (getLineNumber f) @ '':''
       @ string_of_nat (getColumnNumber f) @ '')''"
  by (simp add: frame_line_def or_else_def split: option.splits)

lemma resolveError_message:
  assumes "fromError err = Inr stack" and "0 \<le> i" and "i < int (length stack)"
  shows "map_option fst (fulfilled_value (resolveError fromError err i fileBasePath)) =
           Some (array_join [CHR 0x5C, CHR ''n'']
                (toString err #
                 map (\<lambda>f. ''    at ''
                        @ (case getFunctionName f of None \<Rightarrow> ''<anonymous>''
                           | Some n \<Rightarrow> if n = [] then ''<anonymous>'' else n)
                        @ '' ('' @ getFileName f @ '':'' @ string_of_nat (getLineNumber f)
                        @ '':'' @ string_of_nat (getColumnNumber f) @ '')'')
                   (drop (nat i) stack)))"
proof -
  have lines: "push_lines stack (nat i) [toString err]
                 = toString err # map frame_line (drop (nat i) stack)"
    by (simp add: push_lines_eq)
  have "map_option fst (fulfilled_value (resolveError fromError err i fileBasePath)) =
          Some (array_join [CHR 0x5C, CHR ''n'']
               (toString err # map frame_line (drop (nat i) stack)))"
    using assms by (simp add: resolveError_def stack_resolved_def Let_def lines)
  moreover have "frame_line = (\<lambda>f. ''    at ''
                        @ (case getFunctionName f of None \<Rightarrow> ''<anonymous>''
                           | Some n \<Rightarrow> if n = [] then ''<anonymous>'' else n)
                        @ '' ('' @ getFileName f @ '':'' @ string_of_nat (getLineNumber f)
                        @ '':'' @ string_of_nat (getColumnNumber f) @ '')'')"
    by (rule ext) (rule frame_line_eq)
  ultimately show ?thesis
    by simp
qed

subsection \<open>Calls and callbacks in any order\<close>

text \<open>
  A call of \<^verbatim>\<open>report\<close> whose callback runs before anything else is \<open>report\<close>. Apart from
  \<^verbatim>\<open>setUser\<close>, no step writes the \<open>user\<close> field, and what a step delivers carries the
  \<open>user\<close> the context has at that step.
\<close>

lemma awaited_report:
  "fst (step this (Resume (length suspended))
          (step this (CallReport env err opts) (w, suspended)))
     = snd (report this env err opts w)"
proof (cases "report_sync this env err opts w")
  case (Pair a w1)
  show ?thesis
  proof (cases a)
    case (Inl settled)
    with Pair show ?thesis by (simp add: report_def)
  next
    case (Inr pending)
    with Pair show ?thesis
      by (simp add: report_def Let_def split: promise.splits)
  qed
qed

lemma step_refers_to_context:
  "refers_to_context this (snd state) \<Longrightarrow> refers_to_context this (snd (step this a state))"
proof (cases state)
  case (Pair w suspended)
  assume inv: "refers_to_context this (snd state)"
  show ?thesis
  proof (cases a)
    case (CallReport env err opts)
    show ?thesis
    proof (cases "report_sync this env err opts w")
      case sync: (Pair r w1)
      show ?thesis
      proof (cases r)
        case (Inl settled)
        with Pair CallReport sync inv show ?thesis by simp
      next
        case (Inr pending)
        with sync have "payload_context (pending_payload pending) = context_ref this"
          using report_sync_pending [of this env err opts w pending w1] by simp
        with Pair CallReport sync Inr inv show ?thesis
          by (simp add: refers_to_context_def)
      qed
    qed
  next
    case (CallSetUser u)
    with Pair inv show ?thesis by simp
  next
    case (Resume n)
    have "set (take n suspended @ drop (Suc n) suspended) \<subseteq> set suspended"
      using set_take_subset [of n suspended] set_drop_subset [of "Suc n" suspended] by auto
    with Pair Resume inv show ?thesis
      by (auto simp: refers_to_context_def split: prod.splits promise.splits)
  qed
qed

lemma run_refers_to_context:
  "refers_to_context this (snd state) \<Longrightarrow> refers_to_context this (snd (run this actions state))"
  by (induction this actions state rule: run.induct) (simp_all add: step_refers_to_context)

lemma step_keeps_user:
  assumes "\<not> is_setUser a"
  shows "user (heap (fst (step this a state)) r) = user (heap (fst state) r)"
proof (cases state)
  case (Pair w suspended)
  show ?thesis
  proof (cases a)
    case (CallReport env err opts)
    show ?thesis
    proof (cases "report_sync this env err opts w")
      case sync: (Pair x w1)
      show ?thesis
      proof (cases x)
        case (Inl settled)
        with sync have "w1 = w" by (simp add: report_sync_settled)
        with Pair CallReport sync Inl show ?thesis by simp
      next
        case (Inr pending)
        with sync Pair CallReport show ?thesis
          using report_sync_pending [of this env err opts w pending w1] by simp
      qed
    qed
  next
    case (CallSetUser u)
    with assms show ?thesis by simp
  next
    case (Resume n)
    show ?thesis
    proof (cases "n < length suspended")
      case False
      with Pair Resume show ?thesis by simp
    next
      case True
      obtain env pending where e: "suspended ! n = (env, pending)"
        by (cases "suspended ! n")
      show ?thesis
      proof (cases "resolveError (StackTrace_fromError env) (pending_err pending)
                     (pending_firstFrameIndex pending) (basePath this)")
        case (Rejected x)
        with Pair Resume True e show ?thesis by simp
      next
        case (Fulfilled resolved)
        obtain m location where "resolved = (m, location)" by (cases resolved)
        with Pair Resume True e Fulfilled show ?thesis
          by (simp add: report_then_heap split: option.splits)
      qed
    qed
  qed
qed

lemma step_delivers_user:
  assumes "\<not> is_setUser a" and "refers_to_context this (snd state)"
  shows "\<exists>evs. trace (fst (step this a state)) = trace (fst state) @ evs
     \<and> (\<forall>ev \<in> set evs. is_delivery ev \<longrightarrow>
           map_option user (delivered_context ev)
             = Some (user (heap (fst state) (context_ref this))))"
proof (cases state)
  case (Pair w suspended)
  show ?thesis
  proof (cases a)
    case (CallReport env err opts)
    show ?thesis
    proof (cases "report_sync this env err opts w")
      case sync: (Pair x w1)
      show ?thesis
      proof (cases x)
        case (Inl settled)
        with sync have "w1 = w" by (simp add: report_sync_settled)
        with Pair CallReport sync Inl show ?thesis by simp
      next
        case (Inr pending)
        with sync Pair CallReport show ?thesis
          using report_sync_pending [of this env err opts w pending w1] by simp
      qed
    qed
  next
    case (CallSetUser u)
    with assms show ?thesis by simp
  next
    case (Resume n)
    show ?thesis
    proof (cases "n < length suspended")
      case False
      with Pair Resume show ?thesis by simp
    next
      case True
      obtain env pending where e: "suspended ! n = (env, pending)"
        by (cases "suspended ! n")
      with True have "(env, pending) \<in> set suspended"
        by (metis nth_mem)
      with assms(2) Pair have c: "payload_context (pending_payload pending) = context_ref this"
        by (auto simp: refers_to_context_def)
      show ?thesis
      proof (cases "resolveError (StackTrace_fromError env) (pending_err pending)
                     (pending_firstFrameIndex pending) (basePath this)")
        case (Rejected x)
        with Pair Resume True e show ?thesis by simp
      next
        case (Fulfilled resolved)
        obtain m location where "resolved = (m, location)" by (cases resolved)
        with Pair Resume True e Fulfilled c show ?thesis
          by (simp add: report_then_trace split: option.splits)
      qed
    qed
  qed
qed

lemma run_delivers_user:
  assumes "\<forall>a \<in> set actions. \<not> is_setUser a" and "refers_to_context this (snd state)"
  shows "(\<exists>evs. trace (fst (run this actions state)) = trace (fst state) @ evs
     \<and> (\<forall>ev \<in> set evs. is_delivery ev \<longrightarrow>
           map_option user (delivered_context ev)
             = Some (user (heap (fst state) (context_ref this)))))
     \<and> user (heap (fst (run this actions state)) (context_ref this))
         = user (heap (fst state) (context_ref this))"
  using assms
proof (induction this actions state rule: run.induct)
  case (1 this state)
  then show ?case by simp
next
  case (2 this a actions state)
  let ?s = "step this a state"
  from "2.prems" have na: "\<not> is_setUser a" and rest: "\<forall>a \<in> set actions. \<not> is_setUser a"
    by simp_all
  have inv: "refers_to_context this (snd ?s)"
    using "2.prems"(2) by (rule step_refers_to_context)
  have u: "user (heap (fst ?s) (context_ref this)) = user (heap (fst state) (context_ref this))"
    using na by (rule step_keeps_user)
  obtain evs1 where e1: "trace (fst ?s) = trace (fst state) @ evs1"
    "\<forall>ev \<in> set evs1. is_delivery ev \<longrightarrow>
           map_option user (delivered_context ev)
             = Some (user (heap (fst state) (context_ref this)))"
    using step_delivers_user [OF na "2.prems"(2)] by blast
  from "2.IH" [OF rest inv] obtain evs2 where e2:
    "trace (fst (run this actions ?s)) = trace (fst ?s) @ evs2"
    "\<forall>ev \<in> set evs2. is_delivery ev \<longrightarrow>
           map_option user (delivered_context ev)
             = Some (user (heap (fst ?s) (context_ref this)))"
    and u2: "user (heap (fst (run this actions ?s)) (context_ref this))
         = user (heap (fst ?s) (context_ref this))"
    by blast
  have "trace (fst (run this (a # actions) state)) = trace (fst state) @ (evs1 @ evs2)
     \<and> (\<forall>ev \<in> set (evs1 @ evs2). is_delivery ev \<longrightarrow>
           map_option user (delivered_context ev)
             = Some (user (heap (fst state) (context_ref this))))"
    using e1 e2 u by auto
  then have "\<exists>evs. trace (fst (run this (a # actions) state)) = trace (fst state) @ evs
     \<and> (\<forall>ev \<in> set evs. is_delivery ev \<longrightarrow>
           map_option user (delivered_context ev)
             = Some (user (heap (fst state) (context_ref this))))"
    by blast
  moreover have "user (heap (fst (run this (a # actions) state)) (context_ref this))
         = user (heap (fst state) (context_ref this))"
    using u u2 by simp
  ultimately show ?case by blast
qed

lemma run_append: "run this (xs @ ys) state = run this ys (run this xs state)"
  by (induction this xs state rule: run.induct) simp_all

subsection \<open>Disabled reporter and empty input\<close>

text \<open>
  C1. Whatever \<open>err\<close> is, falsy values included, a disabled reporter resolves
  \<^verbatim>\<open>report(err)\<close> with \<^verbatim>\<open>null\<close> and leaves the world as it was: nothing is written to the
  context, and the trace gets no resolution and no delivery. An enabled reporter rejects
  a falsy \<open>err\<close> with the error \<^verbatim>\<open>no error to report\<close>. The test of \<^verbatim>\<open>disabled\<close> comes first.
\<close>

theorem report_disabled_or_empty:
  "(disabled this \<longrightarrow> report this env err opts w = (Fulfilled NullValue, w))
   \<and> (\<not> disabled this \<and> falsy err \<longrightarrow>
        report this env err opts w = (Rejected (NewError ''no error to report''), w))"
  by (simp add: report_def report_sync_def)

theorem report_disabled_or_empty_witness:
  "disabled (example_reporter\<lparr>disabled := True\<rparr>)
   \<and> falsy ErrUndefined
   \<and> report (example_reporter\<lparr>disabled := True\<rparr>) example_env ErrUndefined None example_world
       = (Fulfilled NullValue, example_world)
   \<and> \<not> disabled example_reporter \<and> falsy ErrNull
   \<and> report example_reporter example_env ErrNull None example_world
       = (Rejected (NewError ''no error to report''), example_world)"
  using report_disabled_or_empty
      [of "example_reporter\<lparr>disabled := True\<rparr>" example_env ErrUndefined None example_world]
    report_disabled_or_empty [of example_reporter example_env ErrNull None example_world]
  by (simp add: example_reporter_def)

subsection \<open>Classification of the HTTP status\<close>

text \<open>
  C2. \<^verbatim>\<open>sendErrorPayload\<close> settles its promise from the status of the response: a status
  from 200 to 299 fulfils it with \<^verbatim>\<open>{message: payload.message}\<close>; 429 rejects it with an
  object literal that is no instance of \<^verbatim>\<open>Error\<close> and has a fixed message; any other
  status rejects it with a \<^verbatim>\<open>new Error\<close> whose message starts with the decimal status
  code (\<open>string_of_nat\<close>, from which lemma \<open>decimal_value_string_of_nat\<close> reads the
  code back), or with \<^verbatim>\<open>network error\<close> when the status is 0 (no response).
\<close>

theorem sendErrorPayload_status:
  "(200 \<le> xhr_status env \<and> xhr_status env < 300 \<longrightarrow>
      fst (sendErrorPayload env target payload w)
        = Fulfilled (MessageObject (payload_message payload)))
   \<and> (xhr_status env = 429 \<longrightarrow>
      fst (sendErrorPayload env target payload w)
        = Rejected (ObjectLiteral ''quota or rate limiting error on stackdriver report''
                      ''Http429FakeError'')
      \<and> \<not> instanceof_Error (ObjectLiteral ''quota or rate limiting error on stackdriver report''
                      ''Http429FakeError''))
   \<and> (\<not> (200 \<le> xhr_status env \<and> xhr_status env < 300) \<and> xhr_status env \<noteq> 429 \<longrightarrow>
      fst (sendErrorPayload env target payload w)
        = Rejected (NewError
            ((if xhr_status env = 0 then ''network error''
              else string_of_nat (xhr_status env) @ '' http response'')
             @ '' on stackdriver report''))
      \<and> instanceof_Error (NewError
            ((if xhr_status env = 0 then ''network error''
              else string_of_nat (xhr_status env) @ '' http response'')
             @ '' on stackdriver report'')))"
  by (simp add: sendErrorPayload_def Let_def)

theorem sendErrorPayload_status_witness:
  "fst (sendErrorPayload (example_env\<lparr>xhr_status := 204\<rparr>) ''u'' example_payload example_world)
     = Fulfilled (MessageObject (Some ''Error: boom''))
   \<and> fst (sendErrorPayload (example_env\<lparr>xhr_status := 429\<rparr>) ''u'' example_payload example_world)
     = Rejected (ObjectLiteral ''quota or rate limiting error on stackdriver report''
                      ''Http429FakeError'')
   \<and> fst (sendErrorPayload (example_env\<lparr>xhr_status := 503\<rparr>) ''u'' example_payload example_world)
     = Rejected (NewError ''503 http response on stackdriver report'')
   \<and> fst (sendErrorPayload (example_env\<lparr>xhr_status := 0\<rparr>) ''u'' example_payload example_world)
     = Rejected (NewError ''network error on stackdriver report'')"
  using sendErrorPayload_status
      [of "example_env\<lparr>xhr_status := 204\<rparr>" "''u''" example_payload example_world]
    sendErrorPayload_status
      [of "example_env\<lparr>xhr_status := 429\<rparr>" "''u''" example_payload example_world]
    sendErrorPayload_status
      [of "example_env\<lparr>xhr_status := 503\<rparr>" "''u''" example_payload example_world]
    sendErrorPayload_status
      [of "example_env\<lparr>xhr_status := 0\<rparr>" "''u''" example_payload example_world]
  by (simp add: example_payload_def string_of_nat.simps digit_def)

subsection \<open>A failed stack resolution\<close>

text \<open>
  C3, as it holds. When \<^verbatim>\<open>StackTrace.fromError\<close> fails with a reason, \<^verbatim>\<open>resolveError\<close> does
  not reject: it fulfils with the message \<^verbatim>\<open>Error extracting stack trace: \<close>, the reason,
  a newline, the string form of the error, a newline, and \<^verbatim>\<open>    (file:line:column)\<close> from
  the properties of the error itself (a missing property gives the empty text),
  together with the empty location \<^verbatim>\<open>{}\<close>. The call of \<^verbatim>\<open>report\<close> then goes on to exactly
  one delivery. Its payload carries that message when no custom message translator is
  configured, and what the translator makes of that message when one is; on the HTTP
  path the context carries the empty location.
\<close>

theorem resolution_failure_degrades:
  fixes err :: error_object and reason reason' :: reason
  defines "degraded \<equiv> (\<lambda>x cause.
     ''Error extracting stack trace: '' @ reason_item cause @ [CHR 0x0A]
       @ toString x @ [CHR 0x0A]
       @ ''    ('' @ join_item (err_file x) @ '':'' @ join_item (err_line x) @ '':''
       @ join_item (err_column x) @ '')'')"
  shows
  "(fromError err = Inl reason \<longrightarrow>
      resolveError fromError err i fileBasePath = Fulfilled (degraded err reason, EmptyObject))
   \<and> (report_sync this env e opts w = (Inr pending, w1)
        \<and> StackTrace_fromError env (pending_err pending) = Inl reason' \<longrightarrow>
      (\<exists>ev. trace (snd (report this env e opts w))
               = trace w @ [FromError (pending_err pending), ev]
           \<and> is_delivery ev
           \<and> map_option payload_message (delivered_payload ev)
               = Some (Some (case customMessageTranslator this of
                               None \<Rightarrow> degraded (pending_err pending) reason'
                             | Some translate \<Rightarrow> translate (degraded (pending_err pending) reason')))
           \<and> (customReportingFunction this = None \<longrightarrow>
                map_option reportLocation (delivered_context ev) = Some (Some EmptyObject))))"
proof (intro conjI impI)
  assume "fromError err = Inl reason"
  then show "resolveError fromError err i fileBasePath
               = Fulfilled (degraded err reason, EmptyObject)"
    by (simp add: resolveError_def stack_failed_def degraded_def)
next
  assume a: "report_sync this env e opts w = (Inr pending, w1)
        \<and> StackTrace_fromError env (pending_err pending) = Inl reason'"
  let ?d = "degraded (pending_err pending) reason'"
  let ?w2 = "w1\<lparr>trace := trace w1 @ [FromError (pending_err pending)]\<rparr>"
  have res: "resolveError (StackTrace_fromError env) (pending_err pending)
               (pending_firstFrameIndex pending) (basePath this) = Fulfilled (?d, EmptyObject)"
    using a by (simp add: resolveError_def stack_failed_def degraded_def)
  have rep: "report this env e opts w = report_then env pending (?d, EmptyObject) ?w2"
    using a res by (simp add: report_after_sync)
  have p: "pending_customFunc pending = customReportingFunction this"
     "pending_customMessageTranslator pending = customMessageTranslator this"
     "trace w1 = trace w"
    using a report_sync_pending [of this env e opts w pending w1] by auto
  show "\<exists>ev. trace (snd (report this env e opts w))
               = trace w @ [FromError (pending_err pending), ev]
           \<and> is_delivery ev
           \<and> map_option payload_message (delivered_payload ev)
               = Some (Some (case customMessageTranslator this of
                               None \<Rightarrow> ?d | Some translate \<Rightarrow> translate ?d))
           \<and> (customReportingFunction this = None \<longrightarrow>
                map_option reportLocation (delivered_context ev) = Some (Some EmptyObject))"
    unfolding rep report_then_trace using p
    by (cases "customReportingFunction this"; cases "customMessageTranslator this") simp_all
qed

theorem resolution_failure_degrades_witness:
  "StackTrace_fromError example_failing_env example_error = Inl (ReasonValue (JSString ''no stack''))
   \<and> resolveError (StackTrace_fromError example_failing_env) example_error 0 (Some ''base'')
       = Fulfilled
           (''Error extracting stack trace: no stack'' @ [CHR 0x0A] @ ''RangeError: bad''
              @ [CHR 0x0A] @ ''    (a.js:7:)'',
            EmptyObject)
   \<and> \<not> isl (fst (report_sync example_reporter example_failing_env (ErrObject example_error)
                   None example_world))
   \<and> trace (snd (report example_reporter example_failing_env (ErrObject example_error)
                   None example_world))
       = [FromError example_error,
          HttpPost
            ''https://clouderrorreporting.googleapis.com/v1beta1/projects/p/events:report?key=k''
            \<lparr>payload_serviceContext = \<lparr>service = ''web'', version = None\<rparr>,
             payload_context = 0,
             payload_message =
               Some (''Error extracting stack trace: no stack'' @ [CHR 0x0A]
                       @ ''RangeError: bad'' @ [CHR 0x0A] @ ''    (a.js:7:)'')\<rparr>
            \<lparr>user = JSUndefined,
             httpRequest = Some \<lparr>userAgent = ''UA'', url = ''https://x/page''\<rparr>,
             reportLocation = Some EmptyObject\<rparr>]"
  using resolution_failure_degrades
    [where fromError = "StackTrace_fromError example_failing_env" and err = example_error
       and reason = "ReasonValue (JSString ''no stack'')" and i = 0
       and fileBasePath = "Some ''base''"
       and this = example_reporter and env = example_failing_env
       and e = "ErrObject example_error" and opts = None and w = example_world
       and pending = "projr (fst (report_sync example_reporter example_failing_env
                                    (ErrObject example_error) None example_world))"
       and ?w1.0 = "snd (report_sync example_reporter example_failing_env
                                    (ErrObject example_error) None example_world)"
       and reason' = "ReasonValue (JSString ''no stack'')"]
  by (simp add: example_failing_env_def example_env_def example_error_def
      example_reporter_def example_world_def report_def
      report_sync_def report_then_def sendErrorPayload_def resolveError_def stack_failed_def
      Let_def toString_def string_of_nat.simps digit_def empty_object_def baseAPIUrl_def
      or_else_def)

text \<open>
  C3, as it is stated, fails when a custom message translator is configured: what is
  delivered is the translator's result, here the text \<^verbatim>\<open>translated\<close>, not the degraded
  message.
\<close>

theorem report_translates_degraded_message:
  "StackTrace_fromError example_failing_env example_error
     = Inl (ReasonValue (JSString ''no stack''))
   \<and> resolveError (StackTrace_fromError example_failing_env) example_error 0 (Some ''base'')
       = Fulfilled
           (''Error extracting stack trace: no stack'' @ [CHR 0x0A] @ ''RangeError: bad''
              @ [CHR 0x0A] @ ''    (a.js:7:)'',
            EmptyObject)
   \<and> map (map_option payload_message \<circ> delivered_payload)
        (trace (snd (report example_translating_reporter example_failing_env
                       (ErrObject example_error) None example_world)))
       = [None, Some (Some ''translated'')]
   \<and> ''translated'' \<noteq> ''Error extracting stack trace: no stack'' @ [CHR 0x0A]
         @ ''RangeError: bad'' @ [CHR 0x0A] @ ''    (a.js:7:)''"
  by (simp add: example_failing_env_def example_env_def example_error_def
      example_reporter_def example_translating_reporter_def example_world_def report_def
      report_sync_def report_then_def sendErrorPayload_def resolveError_def stack_failed_def
      Let_def toString_def string_of_nat.simps digit_def empty_object_def baseAPIUrl_def
      or_else_def)

subsection \<open>The first frame kept\<close>

text \<open>
  \<^verbatim>\<open>report\<close> passes \<open>pending_firstFrameIndex\<close> to \<^verbatim>\<open>resolveError\<close> (lemma
  \<open>report_after_sync\<close>), which keeps the frames from that index on (lemma
  \<open>resolveError_message\<close>).

  C4, as it holds. For a string input the index is 1 when no \<^verbatim>\<open>skipLocalFrames\<close> is
  given, and the given \<^verbatim>\<open>skipLocalFrames\<close> when that is not 0. For an exception-like
  object the index is 0, whatever \<^verbatim>\<open>skipLocalFrames\<close> is: the option only counts when
  \<^verbatim>\<open>report\<close> has created the error, and so the stack, itself.
\<close>

theorem report_sync_firstFrameIndex:
  "report_sync this env e opts w = (Inr pending, w1) \<Longrightarrow>
     ((e = ErrString s \<or> e = ErrStringObject s) \<longrightarrow>
        ((case opts of None \<Rightarrow> None | Some given \<Rightarrow> skipLocalFrames given) = None
           \<longrightarrow> pending_firstFrameIndex pending = 1)
        \<and> (\<forall>n. (case opts of None \<Rightarrow> None | Some given \<Rightarrow> skipLocalFrames given) = Some n
                 \<and> n \<noteq> 0
               \<longrightarrow> pending_firstFrameIndex pending = n))
     \<and> ((\<exists>x. e = ErrObject x) \<longrightarrow> pending_firstFrameIndex pending = 0)"
  by (auto simp: report_sync_def Let_def skipLocalFrames_or_1_def
      split: if_splits option.splits)

theorem report_sync_firstFrameIndex_witness:
  "\<not> isl (fst (report_sync example_reporter example_env (ErrString ''boom'') None example_world))
   \<and> pending_firstFrameIndex
       (projr (fst (report_sync example_reporter example_env (ErrString ''boom'') None
                      example_world))) = 1
   \<and> pending_firstFrameIndex
       (projr (fst (report_sync example_reporter example_env (ErrString ''boom'')
                      (Some \<lparr>skipLocalFrames = Some 2\<rparr>) example_world))) = 2
   \<and> pending_firstFrameIndex
       (projr (fst (report_sync example_reporter example_env (ErrObject example_error)
                      (Some \<lparr>skipLocalFrames = Some 2\<rparr>) example_world))) = 0"
  using report_sync_firstFrameIndex
    [where this = example_reporter and env = example_env and e = "ErrString ''boom''"
       and opts = None and w = example_world and s = "''boom''"
       and pending = "projr (fst (report_sync example_reporter example_env (ErrString ''boom'')
                                    None example_world))"
       and ?w1.0 = "snd (report_sync example_reporter example_env (ErrString ''boom'')
                                    None example_world)"]
    report_sync_firstFrameIndex
    [where this = example_reporter and env = example_env and e = "ErrString ''boom''"
       and opts = "Some \<lparr>skipLocalFrames = Some 2\<rparr>" and w = example_world and s = "''boom''"
       and pending = "projr (fst (report_sync example_reporter example_env (ErrString ''boom'')
                                    (Some \<lparr>skipLocalFrames = Some 2\<rparr>) example_world))"
       and ?w1.0 = "snd (report_sync example_reporter example_env (ErrString ''boom'')
                                    (Some \<lparr>skipLocalFrames = Some 2\<rparr>) example_world)"]
    report_sync_firstFrameIndex
    [where this = example_reporter and env = example_env and e = "ErrObject example_error"
       and opts = "Some \<lparr>skipLocalFrames = Some 2\<rparr>" and w = example_world
       and pending = "projr (fst (report_sync example_reporter example_env
                                    (ErrObject example_error)
                                    (Some \<lparr>skipLocalFrames = Some 2\<rparr>) example_world))"
       and ?w1.0 = "snd (report_sync example_reporter example_env (ErrObject example_error)
                                    (Some \<lparr>skipLocalFrames = Some 2\<rparr>) example_world)"]
  by (simp add: example_reporter_def report_sync_def Let_def skipLocalFrames_or_1_def)

text \<open>
  C4, as it is stated, fails for an exception-like object: with \<^verbatim>\<open>skipLocalFrames\<close> 2 and
  with no options the index is 0, not 2 and not 1, and frame 0 is in the message.
\<close>

theorem report_object_keeps_frame_0:
  "\<not> disabled example_reporter
   \<and> \<not> isl (fst (report_sync example_reporter example_env (ErrObject example_error)
                  (Some \<lparr>skipLocalFrames = Some 2\<rparr>) example_world))
   \<and> pending_firstFrameIndex
       (projr (fst (report_sync example_reporter example_env (ErrObject example_error)
                      (Some \<lparr>skipLocalFrames = Some 2\<rparr>) example_world))) = 0
   \<and> pending_firstFrameIndex
       (projr (fst (report_sync example_reporter example_env (ErrObject example_error)
                      (Some \<lparr>skipLocalFrames = Some 2\<rparr>) example_world))) \<noteq> 2
   \<and> pending_firstFrameIndex
       (projr (fst (report_sync example_reporter example_env (ErrObject example_error)
                      None example_world))) = 0
   \<and> pending_firstFrameIndex
       (projr (fst (report_sync example_reporter example_env (ErrObject example_error)
                      None example_world))) \<noteq> 1
   \<and> fst (report example_reporter example_env (ErrObject example_error) None example_world)
       = Fulfilled (MessageObject (Some
           (''RangeError: bad'' @ [CHR 0x5C, CHR ''n'']
              @ ''    at a (https://x/y/z/app.js?v=1:10:2)'' @ [CHR 0x5C, CHR ''n'']
              @ ''    at <anonymous> (https://x/lib/b.js:20:3)'')))"
  by (simp add: example_reporter_def example_env_def example_error_def example_frames_def
      example_world_def report_def report_sync_def report_then_def sendErrorPayload_def
      resolveError_def stack_resolved_def push_lines.simps push_segments.simps frame_line_def
      split_def Let_def toString_def string_of_nat.simps digit_def or_else_def)

subsection \<open>A stack with no frame at the index\<close>

text \<open>
  Lemma \<open>resolveError_message\<close> gives the message of a resolved stack that has a frame
  at \<open>firstFrameIndex\<close>: the string form of the error, then one line
  \<^verbatim>\<open>    at name (file:line:column)\<close> for each frame from that index on, joined by a
  backslash and the letter n.

  C5. When the resolved stack has no frame at \<open>firstFrameIndex\<close>, no message is produced.
  The loop over the frames ends at once, but \<^verbatim>\<open>stack[firstFrameIndex].getFileName()\<close>
  throws a \<^verbatim>\<open>TypeError\<close>: for the string \<^verbatim>\<open>boom\<close> reported with the default index 1 and a
  stack of one frame, \<^verbatim>\<open>resolveError\<close> and \<^verbatim>\<open>report\<close> reject, and nothing is delivered.
\<close>

theorem resolveError_short_stack_rejects:
  "StackTrace_fromError example_short_env (new_Error ''boom'') = Inr [hd example_frames]
   \<and> resolveError (StackTrace_fromError example_short_env) (new_Error ''boom'') 1 (Some ''base'')
       = Rejected TypeError
   \<and> report example_reporter example_short_env (ErrString ''boom'') None example_world
       = (Rejected TypeError,
          example_world
            \<lparr>heap := (heap example_world)
               (0 := empty_object
                  \<lparr>httpRequest := Some \<lparr>userAgent = ''UA'', url = ''https://x/page''\<rparr>\<rparr>),
             trace := [FromError (new_Error ''boom'')]\<rparr>)"
  by (simp add: example_short_env_def example_env_def example_frames_def resolveError_def
      stack_resolved_def report_def report_sync_def example_reporter_def example_world_def
      skipLocalFrames_or_1_def Let_def)

subsection \<open>The report location\<close>

text \<open>
  C6. When the stack resolves and has a frame at \<open>firstFrameIndex\<close>, the location comes
  from that frame: \<open>filePath\<close> is \<open>fileBasePath\<close> (the text \<^verbatim>\<open>undefined\<close> when no base
  path is configured), a slash, and the frame's file name cut at the slashes, without
  its first three pieces, each remaining piece cut before its first question mark, the
  pieces joined by slashes again; \<open>lineNumber\<close> is the frame's line number; and
  \<open>functionName\<close> is the frame's function name, or \<^verbatim>\<open><anonymous>\<close> when the name is
  missing or empty.
\<close>

theorem resolveError_location:
  assumes "fromError err = Inr stack" and "0 \<le> i" and "i < int (length stack)"
  shows "map_option snd (fulfilled_value (resolveError fromError err i fileBasePath)) =
           Some (Location
                ((case fileBasePath of None \<Rightarrow> ''undefined'' | Some b \<Rightarrow> b) @ ''/''
                   @ array_join ''/''
                       (map (takeWhile (\<lambda>c. c \<noteq> CHR ''?''))
                          (drop 3 (split CHR ''/'' (getFileName (stack ! nat i))))))
                (getLineNumber (stack ! nat i))
                (case getFunctionName (stack ! nat i) of None \<Rightarrow> ''<anonymous>''
                 | Some n \<Rightarrow> if n = [] then ''<anonymous>'' else n))"
proof -
  have "(\<lambda>seg. hd (split CHR ''?'' seg)) = takeWhile (\<lambda>c. c \<noteq> CHR ''?'')"
    by (rule ext) (rule hd_split)
  with assms show ?thesis
    by (cases fileBasePath)
       (simp_all add: resolveError_def stack_resolved_def Let_def push_segments_eq
          or_else_def split: option.splits)
qed

theorem resolveError_location_witness:
  "StackTrace_fromError example_env example_error = Inr example_frames
   \<and> (0::int) \<le> 0 \<and> (0::int) < int (length example_frames)
   \<and> map_option snd (fulfilled_value
        (resolveError (StackTrace_fromError example_env) example_error 0 (Some ''base'')))
       = Some (Location ''base/y/z/app.js'' 10 ''a'')
   \<and> map_option snd (fulfilled_value
        (resolveError (StackTrace_fromError example_env) example_error 1 None))
       = Some (Location ''undefined/lib/b.js'' 20 ''<anonymous>'')"
  using resolveError_location
      [of "StackTrace_fromError example_env" example_error example_frames 0 "Some ''base''"]
    resolveError_location
      [of "StackTrace_fromError example_env" example_error example_frames 1 None]
  by (simp add: example_env_def example_frames_def split_def)

subsection \<open>The delivery path\<close>

text \<open>
  C7, as it holds. No call of \<^verbatim>\<open>report\<close> makes more than one delivery. A call on an
  enabled reporter with a truthy \<open>err\<close> whose resolution gives a message and a location
  makes exactly one: the call of the custom reporting function when one is configured,
  else a POST to the target URL when that is configured, else a POST to the URL built
  from the project id and the API key. The custom function finds in the context the
  \<open>reportLocation\<close> that was there before the call; on the HTTP path the context that is
  sent has the resolved location as its \<open>reportLocation\<close>.
\<close>

theorem report_delivery_path:
  "length (filter is_delivery (drop (length (trace w)) (trace (snd (report this env e opts w)))))
     \<le> 1
   \<and> (report_sync this env e opts w = (Inr pending, w1)
       \<and> resolveError (StackTrace_fromError env) (pending_err pending)
            (pending_firstFrameIndex pending) (basePath this) = Fulfilled (m, location)
      \<longrightarrow> (\<exists>p c.
            (case customReportingFunction this of
               Some customFunc \<Rightarrow>
                 trace (snd (report this env e opts w))
                   = trace w @ [FromError (pending_err pending), CustomCall p c]
                 \<and> reportLocation c = reportLocation (heap w (context_ref this))
             | None \<Rightarrow>
                 trace (snd (report this env e opts w))
                   = trace w @
                       [FromError (pending_err pending),
                        HttpPost
                          (case targetUrl this of
                             Some t \<Rightarrow>
                               if t \<noteq> [] then t
                               else baseAPIUrl @ plus_operand (projectId this)
                                      @ ''/events:report?key='' @ plus_operand (apiKey this)
                           | None \<Rightarrow>
                               baseAPIUrl @ plus_operand (projectId this)
                                 @ ''/events:report?key='' @ plus_operand (apiKey this))
                          p c]
                 \<and> reportLocation c = Some location)))"
proof (intro conjI impI)
  show "length (filter is_delivery
          (drop (length (trace w)) (trace (snd (report this env e opts w))))) \<le> 1"
    by (rule report_trace_length)
next
  assume a: "report_sync this env e opts w = (Inr pending, w1)
       \<and> resolveError (StackTrace_fromError env) (pending_err pending)
            (pending_firstFrameIndex pending) (basePath this) = Fulfilled (m, location)"
  then have sync: "report_sync this env e opts w = (Inr pending, w1)"
    by simp
  note facts = report_sync_pending [OF sync]
  have rep: "report this env e opts w =
      report_then env pending (m, location)
        (w1\<lparr>trace := trace w1 @ [FromError (pending_err pending)]\<rparr>)"
    using a by (simp add: report_after_sync)
  show "\<exists>p c.
            (case customReportingFunction this of
               Some customFunc \<Rightarrow>
                 trace (snd (report this env e opts w))
                   = trace w @ [FromError (pending_err pending), CustomCall p c]
                 \<and> reportLocation c = reportLocation (heap w (context_ref this))
             | None \<Rightarrow>
                 trace (snd (report this env e opts w))
                   = trace w @
                       [FromError (pending_err pending),
                        HttpPost
                          (case targetUrl this of
                             Some t \<Rightarrow>
                               if t \<noteq> [] then t
                               else baseAPIUrl @ plus_operand (projectId this)
                                      @ ''/events:report?key='' @ plus_operand (apiKey this)
                           | None \<Rightarrow>
                               baseAPIUrl @ plus_operand (projectId this)
                                 @ ''/events:report?key='' @ plus_operand (apiKey this))
                          p c]
                 \<and> reportLocation c = Some location)"
    unfolding rep report_then_trace using facts
    by (cases "customReportingFunction this")
       (auto simp add: or_else_def split: option.splits)
qed

theorem report_delivery_path_witness:
  "\<not> isl (fst (report_sync example_custom_reporter example_env (ErrString ''boom'') None
                  example_world))
   \<and> resolveError (StackTrace_fromError example_env) (new_Error ''boom'') 1 (Some ''base'')
       = Fulfilled
           (''Error: boom'' @ [CHR 0x5C, CHR ''n'']
              @ ''    at <anonymous> (https://x/lib/b.js:20:3)'',
            Location ''base/lib/b.js'' 20 ''<anonymous>'')
   \<and> trace (snd (report example_custom_reporter example_env (ErrString ''boom'') None
                   example_world))
       = [FromError (new_Error ''boom''),
          CustomCall
            \<lparr>payload_serviceContext = \<lparr>service = ''web'', version = None\<rparr>,
             payload_context = 0,
             payload_message =
               Some (''Error: boom'' @ [CHR 0x5C, CHR ''n'']
                       @ ''    at <anonymous> (https://x/lib/b.js:20:3)'')\<rparr>
            \<lparr>user = JSUndefined,
             httpRequest = Some \<lparr>userAgent = ''UA'', url = ''https://x/page''\<rparr>,
             reportLocation = None\<rparr>]
   \<and> trace (snd (report (example_custom_reporter\<lparr>targetUrl := Some ''https://t''\<rparr>)
                   example_env (ErrString ''boom'') None example_world))
       = trace (snd (report example_custom_reporter example_env (ErrString ''boom'') None
                   example_world))
   \<and> trace (snd (report (example_reporter\<lparr>targetUrl := Some ''https://t''\<rparr>)
                   example_env (ErrString ''boom'') None example_world))
       = [FromError (new_Error ''boom''),
          HttpPost ''https://t''
            \<lparr>payload_serviceContext = \<lparr>service = ''web'', version = None\<rparr>,
             payload_context = 0,
             payload_message =
               Some (''Error: boom'' @ [CHR 0x5C, CHR ''n'']
                       @ ''    at <anonymous> (https://x/lib/b.js:20:3)'')\<rparr>
            \<lparr>user = JSUndefined,
             httpRequest = Some \<lparr>userAgent = ''UA'', url = ''https://x/page''\<rparr>,
             reportLocation = Some (Location ''base/lib/b.js'' 20 ''<anonymous>'')\<rparr>]
   \<and> map_option (\<lambda>ev. case ev of HttpPost target p c \<Rightarrow> target | _ \<Rightarrow> [])
        (Some (last (trace (snd (report example_reporter example_env (ErrString ''boom'') None
                   example_world)))))
       = Some ''https://clouderrorreporting.googleapis.com/v1beta1/projects/p/events:report?key=k''"
  using report_delivery_path
    [where this = example_custom_reporter and env = example_env and e = "ErrString ''boom''"
       and opts = None and w = example_world
       and pending = "projr (fst (report_sync example_custom_reporter example_env
                                    (ErrString ''boom'') None example_world))"
       and ?w1.0 = "snd (report_sync example_custom_reporter example_env
                                    (ErrString ''boom'') None example_world)"
       and m = "''Error: boom'' @ [CHR 0x5C, CHR ''n'']
                  @ ''    at <anonymous> (https://x/lib/b.js:20:3)''"
       and location = "Location ''base/lib/b.js'' 20 ''<anonymous>''"]
    report_delivery_path
    [where this = "example_reporter\<lparr>targetUrl := Some ''https://t''\<rparr>" and env = example_env
       and e = "ErrString ''boom''" and opts = None and w = example_world
       and pending = "projr (fst (report_sync (example_reporter\<lparr>targetUrl := Some ''https://t''\<rparr>)
                                    example_env (ErrString ''boom'') None example_world))"
       and ?w1.0 = "snd (report_sync (example_reporter\<lparr>targetUrl := Some ''https://t''\<rparr>)
                                    example_env (ErrString ''boom'') None example_world)"
       and m = "''Error: boom'' @ [CHR 0x5C, CHR ''n'']
                  @ ''    at <anonymous> (https://x/lib/b.js:20:3)''"
       and location = "Location ''base/lib/b.js'' 20 ''<anonymous>''"]
  by (simp add: example_custom_reporter_def example_reporter_def example_env_def
      example_frames_def example_world_def report_def report_sync_def report_then_def
      sendErrorPayload_def resolveError_def stack_resolved_def push_lines.simps
      push_segments.simps frame_line_def split_def Let_def toString_def new_Error_def
      string_of_nat.simps digit_def or_else_def skipLocalFrames_or_1_def empty_object_def
      baseAPIUrl_def)

text \<open>
  C7, as it is stated, fails for an enabled reporter and a falsy \<open>err\<close>: the call is
  rejected before any delivery path is used.
\<close>

theorem report_empty_input_no_delivery:
  "\<not> disabled example_custom_reporter
   \<and> filter is_delivery
        (trace (snd (report example_custom_reporter example_env ErrUndefined None example_world)))
       = []
   \<and> \<not> disabled example_reporter
   \<and> filter is_delivery
        (trace (snd (report example_reporter example_env ErrNull None example_world)))
       = []"
  by (simp add: example_custom_reporter_def example_reporter_def example_world_def
      report_def report_sync_def)

subsection \<open>Validation of the configuration\<close>

text \<open>
  C8. \<^verbatim>\<open>start\<close> throws exactly when the configuration has no usable delivery mechanism,
  that is, when it has neither an API key together with a project id, nor a target URL,
  nor a custom reporting function; what it throws is one of its two
  \<^verbatim>\<open>Cannot initialize\<close> errors. Otherwise it returns the reporter.
\<close>

theorem start_throws_iff_unusable:
  "isl (start config w)
     = (\<not> (truthy (config_key config) \<and> truthy (config_projectId config)
            \<or> truthy (config_targetUrl config)
            \<or> config_customReportingFunction config \<noteq> None))
   \<and> (isl (start config w) \<longrightarrow>
        projl (start config w) = NewError
          ''Cannot initialize: No API key, target url or custom reporting function provided.''
        \<or> projl (start config w) = NewError
          ''Cannot initialize: No project ID, target url or custom reporting function provided.'')"
  by (auto simp: start_def Let_def split: prod.splits)

theorem start_throws_iff_unusable_witness:
  "\<not> isl (start example_config example_world)
   \<and> \<not> isl (start (example_config\<lparr>config_key := None, config_targetUrl := Some ''https://t''\<rparr>)
         example_world)
   \<and> isl (start (example_config\<lparr>config_projectId := None\<rparr>) example_world)
   \<and> projl (start (example_config\<lparr>config_projectId := None\<rparr>) example_world) = NewError
          ''Cannot initialize: No project ID, target url or custom reporting function provided.''"
  using start_throws_iff_unusable [of example_config example_world]
    start_throws_iff_unusable
      [of "example_config\<lparr>config_key := None, config_targetUrl := Some ''https://t''\<rparr>" example_world]
    start_throws_iff_unusable [of "example_config\<lparr>config_projectId := None\<rparr>" example_world]
  by (simp add: example_config_def start_def)

subsection \<open>\<^verbatim>\<open>setUser\<close>\<close>

text \<open>
  C9, as it holds. \<^verbatim>\<open>setUser(u)\<close> writes \<open>u\<close> to the \<open>user\<close> field of the reporter's context
  object and changes nothing else: not the other fields of that object, no other object,
  not the trace, not the handlers. After any earlier calls and callbacks, and whatever
  calls of \<^verbatim>\<open>report\<close> and callbacks follow in whatever order, as long as no other
  \<^verbatim>\<open>setUser\<close> is among them, every payload that is delivered carries a context whose
  \<open>user\<close> is \<open>u\<close>, and \<open>u\<close> is still in the context afterwards. This includes the payload
  of a report that was called before \<^verbatim>\<open>setUser(u)\<close> and is delivered after it; so after
  \<^verbatim>\<open>setUser(undefined)\<close> every delivery carries \<^verbatim>\<open>undefined\<close>.
\<close>

theorem setUser_persists:
  "user (heap (setUser this u w) (context_ref this)) = u
   \<and> httpRequest (heap (setUser this u w) (context_ref this))
       = httpRequest (heap w (context_ref this))
   \<and> reportLocation (heap (setUser this u w) (context_ref this))
       = reportLocation (heap w (context_ref this))
   \<and> (\<forall>r. r \<noteq> context_ref this \<longrightarrow> heap (setUser this u w) r = heap w r)
   \<and> trace (setUser this u w) = trace w
   \<and> next_ref (setUser this u w) = next_ref w
   \<and> onerror (setUser this u w) = onerror w
   \<and> onunhandledrejection (setUser this u w) = onunhandledrejection w
   \<and> ((\<forall>a \<in> set later. \<not> is_setUser a) \<longrightarrow>
        (\<forall>ev \<in> set (drop (length (trace (fst (run this earlier (w, [])))))
                      (trace (fst (run this (earlier @ CallSetUser u # later) (w, []))))).
           is_delivery ev \<longrightarrow> map_option user (delivered_context ev) = Some u)
        \<and> user (heap (fst (run this (earlier @ CallSetUser u # later) (w, [])))
              (context_ref this)) = u)"
proof -
  let ?s0 = "run this earlier (w, [])"
  let ?s1 = "step this (CallSetUser u) ?s0"
  have inv0: "refers_to_context this (snd ?s0)"
    by (rule run_refers_to_context) (simp add: refers_to_context_def)
  have s1: "?s1 = (setUser this u (fst ?s0), snd ?s0)"
    by (cases ?s0) simp
  have inv1: "refers_to_context this (snd ?s1)"
    using inv0 by (simp add: s1)
  have u1: "user (heap (fst ?s1) (context_ref this)) = u"
    and t1: "trace (fst ?s1) = trace (fst ?s0)"
    by (simp_all add: s1 setUser_def)
  have split: "run this (earlier @ CallSetUser u # later) (w, []) = run this later ?s1"
    by (simp add: run_append)
  have "(\<forall>ev \<in> set (drop (length (trace (fst ?s0)))
                      (trace (fst (run this (earlier @ CallSetUser u # later) (w, []))))).
           is_delivery ev \<longrightarrow> map_option user (delivered_context ev) = Some u)
        \<and> user (heap (fst (run this (earlier @ CallSetUser u # later) (w, [])))
              (context_ref this)) = u"
    if no: "\<forall>a \<in> set later. \<not> is_setUser a"
  proof -
    from run_delivers_user [OF no inv1] obtain evs where
      "trace (fst (run this later ?s1)) = trace (fst ?s1) @ evs"
      "\<forall>ev \<in> set evs. is_delivery ev \<longrightarrow>
           map_option user (delivered_context ev)
             = Some (user (heap (fst ?s1) (context_ref this)))"
      and "user (heap (fst (run this later ?s1)) (context_ref this))
         = user (heap (fst ?s1) (context_ref this))"
      by blast
    then show ?thesis
      unfolding split using u1 t1 by simp
  qed
  then show ?thesis
    by (simp add: setUser_def)
qed

theorem setUser_persists_witness:
  "map (map_option user \<circ> delivered_context)
     (filter is_delivery
        (trace (fst (run example_reporter
                  ([] @ CallSetUser (JSString ''abc'') #
                     [CallReport example_env (ErrString ''boom'') None,
                      CallReport example_env (ErrObject example_error) None,
                      Resume 1, Resume 0])
                  (example_world, [])))))
     = [Some (JSString ''abc''), Some (JSString ''abc'')]
   \<and> map (map_option user \<circ> delivered_context)
     (filter is_delivery
        (trace (fst (run example_reporter
                  ([CallSetUser (JSString ''abc''),
                    CallReport example_env (ErrString ''boom'') None, Resume 0,
                    CallReport example_env (ErrObject example_error) None]
                   @ CallSetUser JSUndefined #
                     [CallReport example_env (ErrString ''boom'') None, Resume 0, Resume 0])
                  (example_world, [])))))
     = [Some (JSString ''abc''), Some JSUndefined, Some JSUndefined]"
  using setUser_persists
    [where this = example_reporter and u = "JSString ''abc''" and w = example_world
       and earlier = "[]"
       and later = "[CallReport example_env (ErrString ''boom'') None,
                      CallReport example_env (ErrObject example_error) None,
                      Resume 1, Resume 0]"]
    setUser_persists
    [where this = example_reporter and u = JSUndefined and w = example_world
       and earlier = "[CallSetUser (JSString ''abc''),
                    CallReport example_env (ErrString ''boom'') None, Resume 0,
                    CallReport example_env (ErrObject example_error) None]"
       and later = "[CallReport example_env (ErrString ''boom'') None, Resume 0, Resume 0]"]
  by (simp add: example_reporter_def example_env_def example_error_def
      example_frames_def example_world_def setUser_def report_sync_def report_then_def
      sendErrorPayload_def resolveError_def stack_resolved_def push_lines.simps
      push_segments.simps frame_line_def split_def Let_def toString_def new_Error_def
      string_of_nat.simps digit_def or_else_def skipLocalFrames_or_1_def empty_object_def
      baseAPIUrl_def)

text \<open>
  C9, as it is stated, fails for a report that is called after \<^verbatim>\<open>setUser("abc")\<close> and
  delivered after the next \<^verbatim>\<open>setUser\<close>: the context has the user \<^verbatim>\<open>abc\<close> when \<^verbatim>\<open>report\<close>
  returns with its callback suspended, \<^verbatim>\<open>setUser(undefined)\<close> follows, and the payload
  that is then delivered carries \<^verbatim>\<open>undefined\<close>, because it refers to the shared context
  object, which is read when the payload is sent.
\<close>

theorem setUser_before_delivery:
  "user (heap (fst (run example_reporter
                      [CallSetUser (JSString ''abc''),
                       CallReport example_env (ErrString ''boom'') None]
                      (example_world, []))) (context_ref example_reporter))
     = JSString ''abc''
   \<and> length (snd (run example_reporter
                      [CallSetUser (JSString ''abc''),
                       CallReport example_env (ErrString ''boom'') None]
                      (example_world, []))) = 1
   \<and> map (map_option user \<circ> delivered_context)
       (filter is_delivery
          (trace (fst (run example_reporter
                         [CallSetUser (JSString ''abc''),
                          CallReport example_env (ErrString ''boom'') None,
                          CallSetUser JSUndefined,
                          Resume 0]
                         (example_world, [])))))
     = [Some JSUndefined]
   \<and> JSUndefined \<noteq> JSString ''abc''"
  by (simp add: example_reporter_def example_env_def
      example_frames_def example_world_def setUser_def report_sync_def report_then_def
      sendErrorPayload_def resolveError_def stack_resolved_def push_lines.simps
      push_segments.simps frame_line_def split_def Let_def toString_def new_Error_def
      string_of_nat.simps digit_def or_else_def skipLocalFrames_or_1_def empty_object_def
      baseAPIUrl_def)

subsection \<open>The shared context object\<close>

text \<open>
  C10. In a call of \<^verbatim>\<open>report\<close> on an enabled reporter with a truthy \<open>err\<close>, the payload
  refers to the reporter's own context object. When resolution begins, \<open>httpRequest\<close> of
  that object already holds the user agent and the URL of the call, and it still does
  when the call is over, however the promise is settled. On the HTTP path the resolved
  location is written to \<open>reportLocation\<close> of the same object, stays there after the call,
  and is what the payload of the next call refers to when its resolution begins.
\<close>

theorem report_shares_context:
  assumes "report_sync this env e opts w = (Inr pending, w1)"
  shows "payload_context (pending_payload pending) = context_ref this
   \<and> httpRequest (heap w1 (context_ref this))
       = Some \<lparr>userAgent = navigator_userAgent env, url = location_href env\<rparr>
   \<and> httpRequest (heap (snd (report this env e opts w)) (context_ref this))
       = Some \<lparr>userAgent = navigator_userAgent env, url = location_href env\<rparr>
   \<and> (customReportingFunction this = None
       \<and> resolveError (StackTrace_fromError env) (pending_err pending)
            (pending_firstFrameIndex pending) (basePath this) = Fulfilled (m, location)
      \<longrightarrow> reportLocation (heap (snd (report this env e opts w)) (context_ref this))
            = Some location
        \<and> (\<forall>env' e' opts' pending' w'.
              report_sync this env' e' opts' (snd (report this env e opts w)) = (Inr pending', w')
              \<longrightarrow> reportLocation (heap w' (payload_context (pending_payload pending')))
                    = Some location))"
proof -
  note facts = report_sync_pending [OF assms]
  have "heap (snd (report this env e opts w)) = heap w1
        \<or> (\<exists>l. heap (snd (report this env e opts w))
              = (heap w1)(context_ref this :=
                   (heap w1 (context_ref this))\<lparr>reportLocation := Some l\<rparr>))"
  proof (cases "resolveError (StackTrace_fromError env) (pending_err pending)
           (pending_firstFrameIndex pending) (basePath this)")
    case (Rejected r)
    with assms show ?thesis by (simp add: report_after_sync)
  next
    case (Fulfilled resolved)
    obtain m' l' where "resolved = (m', l')" by (cases resolved)
    with assms Fulfilled facts show ?thesis
      by (cases "customReportingFunction this")
         (auto simp add: report_after_sync report_then_heap)
  qed
  moreover have "httpRequest (heap w1 (context_ref this))
       = Some \<lparr>userAgent = navigator_userAgent env, url = location_href env\<rparr>"
    using facts by simp
  ultimately have h: "httpRequest (heap (snd (report this env e opts w)) (context_ref this))
       = Some \<lparr>userAgent = navigator_userAgent env, url = location_href env\<rparr>"
    by auto
  have l: "reportLocation (heap (snd (report this env e opts w)) (context_ref this))
            = Some location
        \<and> (\<forall>env' e' opts' pending' w'.
              report_sync this env' e' opts' (snd (report this env e opts w)) = (Inr pending', w')
              \<longrightarrow> reportLocation (heap w' (payload_context (pending_payload pending')))
                    = Some location)"
    if c: "customReportingFunction this = None"
      and r: "resolveError (StackTrace_fromError env) (pending_err pending)
            (pending_firstFrameIndex pending) (basePath this) = Fulfilled (m, location)"
  proof -
    have rep: "report this env e opts w =
      report_then env pending (m, location)
        (w1\<lparr>trace := trace w1 @ [FromError (pending_err pending)]\<rparr>)"
      using assms r by (simp add: report_after_sync)
    have here: "reportLocation (heap (snd (report this env e opts w)) (context_ref this))
            = Some location"
      unfolding rep report_then_heap using facts c by simp
    moreover have "reportLocation (heap w' (payload_context (pending_payload pending')))
                    = Some location"
      if n: "report_sync this env' e' opts' (snd (report this env e opts w)) = (Inr pending', w')"
      for env' e' opts' pending' w'
      using report_sync_pending [OF n] here by simp
    ultimately show ?thesis by blast
  qed
  from facts h l show ?thesis by simp
qed

theorem report_shares_context_witness:
  "\<not> isl (fst (report_sync example_reporter (example_env\<lparr>xhr_status := 500\<rparr>)
                  (ErrString ''boom'') None example_world))
   \<and> payload_context (pending_payload
        (projr (fst (report_sync example_reporter (example_env\<lparr>xhr_status := 500\<rparr>)
                  (ErrString ''boom'') None example_world))))
       = context_ref example_reporter
   \<and> fst (report example_reporter (example_env\<lparr>xhr_status := 500\<rparr>) (ErrString ''boom'') None
            example_world)
       = Rejected (NewError ''500 http response on stackdriver report'')
   \<and> httpRequest
        (heap (snd (report example_reporter (example_env\<lparr>xhr_status := 500\<rparr>)
                      (ErrString ''boom'') None example_world)) 0)
       = Some \<lparr>userAgent = ''UA'', url = ''https://x/page''\<rparr>
   \<and> reportLocation
        (heap (snd (report example_reporter (example_env\<lparr>xhr_status := 500\<rparr>)
                      (ErrString ''boom'') None example_world)) 0)
       = Some (Location ''base/lib/b.js'' 20 ''<anonymous>'')
   \<and> reportLocation
        (heap (snd (report_sync example_reporter example_failing_env (ErrObject example_error) None
                 (snd (report example_reporter (example_env\<lparr>xhr_status := 500\<rparr>)
                      (ErrString ''boom'') None example_world)))) 0)
       = Some (Location ''base/lib/b.js'' 20 ''<anonymous>'')"
  using report_shares_context
    [where this = example_reporter and env = "example_env\<lparr>xhr_status := 500\<rparr>"
       and e = "ErrString ''boom''" and opts = None and w = example_world
       and pending = "projr (fst (report_sync example_reporter (example_env\<lparr>xhr_status := 500\<rparr>)
                                    (ErrString ''boom'') None example_world))"
       and ?w1.0 = "snd (report_sync example_reporter (example_env\<lparr>xhr_status := 500\<rparr>)
                                    (ErrString ''boom'') None example_world)"
       and m = "''Error: boom'' @ [CHR 0x5C, CHR ''n'']
                  @ ''    at <anonymous> (https://x/lib/b.js:20:3)''"
       and location = "Location ''base/lib/b.js'' 20 ''<anonymous>''"]
  by (simp add: example_reporter_def example_env_def example_failing_env_def example_error_def
      example_frames_def example_world_def report_def report_sync_def report_then_def
      sendErrorPayload_def resolveError_def stack_resolved_def push_lines.simps
      push_segments.simps frame_line_def split_def Let_def toString_def new_Error_def
      string_of_nat.simps digit_def or_else_def skipLocalFrames_or_1_def empty_object_def
      baseAPIUrl_def)

end
